theory Spec2Isabelle
  imports Main
begin

section \<open>Purchase-tag detection (server.js, POST /api/auth, step 3)\<close>

text \<open>
  Tags are JavaScript strings; they are modelled as \<open>string\<close>, one \<open>char\<close> per code unit
  (code units up to 255). \<open>String.prototype.trim\<close> removes white space and line
  terminators at both ends; the code units 9 to 13, 32 and 160 are the ones of that class
  that a \<open>char\<close> can hold.
\<close>

definition is_space :: "char \<Rightarrow> bool" where
  "is_space c = ((of_char c :: nat) \<in> {9, 10, 11, 12, 13, 32, 160})"

definition trim :: "string \<Rightarrow> string" where
  "trim s = rev (dropWhile is_space (rev (dropWhile is_space s)))"

text \<open>The class \<open>\d\<close> of a JavaScript regular expression: the ten ASCII digits.\<close>

definition is_digit :: "char \<Rightarrow> bool" where
  "is_digit c = (c \<in> set ''0123456789'')"

text \<open>
  \<open>tagStr.match(/^\$?(\d+)$/)\<close>: an optional leading dollar sign, then one or more digits
  up to the end of the string. The result is the capture group, or \<open>None\<close> for
  \<open>null\<close>.
\<close>

definition purchaseMatch :: "string \<Rightarrow> string option" where
  "purchaseMatch tagStr =
     (let ds = (case tagStr of [] \<Rightarrow> [] | c # cs \<Rightarrow> if c = CHR ''$'' then cs else tagStr)
      in if ds \<noteq> [] \<and> list_all is_digit ds then Some ds else None)"

definition digit_value :: "char \<Rightarrow> int" where
  "digit_value c = int (of_char c) - 48"

text \<open>
  \<open>parseInt(digits, 10)\<close> on a string of decimal digits. JavaScript numbers are doubles:
  beyond \<open>2^53\<close> the result is rounded, but rounding is monotone, so every comparison
  with 0 and 10000 below is the one the exact integer gives.
\<close>

definition parseInt :: "string \<Rightarrow> int" where
  "parseInt ds = foldl (\<lambda>n c. 10 * n + digit_value c) 0 ds"

record purchase_tag =
  tag :: string
  credits :: int

text \<open>The body of the loop over \<open>memberData.tags\<close>: what one tag pushes, if anything.\<close>

definition purchase_of_tag :: "string \<Rightarrow> purchase_tag option" where
  "purchase_of_tag t =
     (let tagStr = trim t in
      case purchaseMatch tagStr of
        None \<Rightarrow> None
      | Some ds \<Rightarrow>
          let creditAmount = parseInt ds in
          if creditAmount > 0 \<and> creditAmount \<le> 10000
          then Some \<lparr>tag = tagStr, credits = creditAmount\<rparr>
          else None)"

text \<open>The loop \<open>for (const tag of memberData.tags)\<close>, pushing in order.\<close>

fun collect_purchase_tags :: "string list \<Rightarrow> purchase_tag list" where
  "collect_purchase_tags [] = []"
| "collect_purchase_tags (t # ts) =
     (case purchase_of_tag t of
        Some p \<Rightarrow> p # collect_purchase_tags ts
      | None \<Rightarrow> collect_purchase_tags ts)"

text \<open>
  \<open>memberData.tags && Array.isArray(memberData.tags)\<close>: \<open>None\<close> stands for a missing
  or non-array field, which leaves \<open>purchaseTags\<close> empty.
\<close>

definition purchaseTags :: "string list option \<Rightarrow> purchase_tag list" where
  "purchaseTags tgs = (case tgs of None \<Rightarrow> [] | Some ts \<Rightarrow> collect_purchase_tags ts)"

section \<open>The database (src/database/schema.sql)\<close>

text \<open>
  One record per table, with the columns the credit logic reads or writes. Timestamps are
  JavaScript time values: milliseconds since the epoch. SQL \<open>INT\<close> and JavaScript numbers
  are modelled as unbounded integers: amounts stay far from both limits.
\<close>

datatype db_error =
    unique_violation
  | string_data_right_truncation nat
  | in_failed_sql_transaction
  | statement_failed

text \<open>
  A value stored into a column of type \<open>VARCHAR(n)\<close>: PostgreSQL rejects a value of more
  than \<open>n\<close> characters, unless the characters beyond the first \<open>n\<close> are all spaces, in
  which case it stores the first \<open>n\<close>.
\<close>

definition varchar :: "nat \<Rightarrow> string \<Rightarrow> db_error + string" where
  "varchar n v =
     (if length v \<le> n then Inr v
      else if list_all (\<lambda>c. c = CHR '' '') (drop n v) then Inr (take n v)
      else Inl (string_data_right_truncation n))"

datatype change_type =
    initial_grant | monthly_refresh | upgrade_bonus | purchase | action_cost
  | admin_bonus | admin_refresh | credit_addition | credit_deduction

record members_row =
  m_id :: nat
  circle_member_id :: int
  email :: string
  name :: string
  is_paid :: bool
  tags :: "string list"
  first_seen_at :: int
  last_seen_at :: int

record member_credits_row =
  credits_balance :: int
  last_refreshed_at :: int

record app_actions_row =
  aa_id :: nat
  aa_member_id :: nat
  action_type :: string
  credits_cost :: int
  success :: bool

record credit_history_row =
  ch_member_id :: nat
  change_amount :: int
  change_type :: change_type
  balance_after :: int
  reference_id :: "nat option"
  ch_notes :: string

record processed_purchase_tags_row =
  ppt_member_id :: nat
  tag_value :: string
  credits_granted :: int

text \<open>
  \<open>member_credits\<close> has \<open>member_id ... NOT NULL UNIQUE\<close>: it is a finite map from the
  member's id to the row. The other tables are lists, in the order in which the rows
  become visible. The two counters are the identity sequences of \<open>members.id\<close> and
  \<open>app_actions.id\<close>; they count the rows inserted (a value that PostgreSQL draws for a
  statement that fails, or that updates on conflict, is not counted: ids only name rows
  here).
\<close>

record db =
  members :: "members_row list"
  member_credits :: "nat \<rightharpoonup> member_credits_row"
  app_actions :: "app_actions_row list"
  credit_history :: "credit_history_row list"
  processed_purchase_tags :: "processed_purchase_tags_row list"
  members_id_seq :: nat
  app_actions_id_seq :: nat

definition empty_db :: db where
  "empty_db = \<lparr>members = [], member_credits = Map.empty, app_actions = [],
     credit_history = [], processed_purchase_tags = [],
     members_id_seq = 0, app_actions_id_seq = 0\<rparr>"

subsection \<open>The trigger \<open>log_member_credits_changes\<close>\<close>

text \<open>
  \<open>AFTER INSERT OR UPDATE ON member_credits FOR EACH ROW EXECUTE FUNCTION
  log_credit_change()\<close>: the rows the trigger function inserts into \<open>credit_history\<close>,
  for \<open>TG_OP = 'INSERT'\<close> and for \<open>TG_OP = 'UPDATE'\<close>.
\<close>

definition log_credit_change_INSERT :: "nat \<Rightarrow> member_credits_row \<Rightarrow> credit_history_row list" where
  "log_credit_change_INSERT member_id NEW =
     [\<lparr>ch_member_id = member_id, change_amount = credits_balance NEW,
       change_type = initial_grant, balance_after = credits_balance NEW,
       reference_id = None, ch_notes = ''Initial credit grant for new member''\<rparr>]"

definition log_credit_change_UPDATE ::
  "nat \<Rightarrow> member_credits_row \<Rightarrow> member_credits_row \<Rightarrow> credit_history_row list" where
  "log_credit_change_UPDATE member_id OLD NEW =
     (if credits_balance OLD \<noteq> credits_balance NEW
      then [\<lparr>ch_member_id = member_id,
              change_amount = credits_balance NEW - credits_balance OLD,
              change_type = (if credits_balance NEW > credits_balance OLD
                             then credit_addition else credit_deduction),
              balance_after = credits_balance NEW,
              reference_id = None,
              ch_notes = ''Automatic log from credit balance change''\<rparr>]
      else [])"

subsection \<open>The SQL statements of server.js\<close>

text \<open>
  \<open>INSERT INTO member_credits (member_id, credits_balance, last_refreshed_at)
  VALUES ($1, $2, NOW()) ON CONFLICT (member_id) DO UPDATE SET credits_balance =
  EXCLUDED.credits_balance, last_refreshed_at = EXCLUDED.last_refreshed_at\<close>.
  The trigger fires for the insert, or for the update when the row exists.
\<close>

definition insert_member_credits :: "nat \<Rightarrow> int \<Rightarrow> int \<Rightarrow> db \<Rightarrow> db" where
  "insert_member_credits member_id bal now s =
     (case member_credits s member_id of
        None \<Rightarrow>
          (let NEW = \<lparr>credits_balance = bal, last_refreshed_at = now\<rparr> in
           s\<lparr>member_credits := (member_credits s)(member_id \<mapsto> NEW),
             credit_history := credit_history s @ log_credit_change_INSERT member_id NEW\<rparr>)
      | Some OLD \<Rightarrow>
          (let NEW = OLD\<lparr>credits_balance := bal, last_refreshed_at := now\<rparr> in
           s\<lparr>member_credits := (member_credits s)(member_id \<mapsto> NEW),
             credit_history := credit_history s @ log_credit_change_UPDATE member_id OLD NEW\<rparr>))"

text \<open>
  \<open>UPDATE member_credits SET ... WHERE member_id = $n\<close>, the assignments given as a
  function on the row. No row: nothing is updated and the trigger does not fire.
\<close>

definition update_member_credits ::
  "nat \<Rightarrow> (member_credits_row \<Rightarrow> member_credits_row) \<Rightarrow> db \<Rightarrow> db" where
  "update_member_credits member_id f s =
     (case member_credits s member_id of
        None \<Rightarrow> s
      | Some OLD \<Rightarrow>
          s\<lparr>member_credits := (member_credits s)(member_id \<mapsto> f OLD),
            credit_history := credit_history s @ log_credit_change_UPDATE member_id OLD (f OLD)\<rparr>)"

definition insert_credit_history :: "credit_history_row \<Rightarrow> db \<Rightarrow> db" where
  "insert_credit_history row s = s\<lparr>credit_history := credit_history s @ [row]\<rparr>"

text \<open>
  \<open>INSERT INTO processed_purchase_tags (member_id, tag_value, credits_granted)\<close>;
  \<open>tag_value\<close> is \<open>VARCHAR(100)\<close>.
\<close>

definition insert_processed_purchase_tags :: "nat \<Rightarrow> string \<Rightarrow> int \<Rightarrow> db \<Rightarrow> db_error + db" where
  "insert_processed_purchase_tags member_id tagv granted s =
     (case varchar 100 tagv of
        Inl err \<Rightarrow> Inl err
      | Inr v \<Rightarrow>
          Inr (s\<lparr>processed_purchase_tags := processed_purchase_tags s @
                   [\<lparr>ppt_member_id = member_id, tag_value = v, credits_granted = granted\<rparr>]\<rparr>))"

text \<open>
  \<open>INSERT INTO app_actions ... RETURNING id\<close>; \<open>action_type\<close> is \<open>VARCHAR(50)\<close>. The
  new row takes the next value of the identity sequence, which is returned.
\<close>

definition insert_app_actions :: "nat \<Rightarrow> string \<Rightarrow> int \<Rightarrow> db \<Rightarrow> db_error + (db \<times> nat)" where
  "insert_app_actions member_id atype cost s =
     (case varchar 50 atype of
        Inl err \<Rightarrow> Inl err
      | Inr v \<Rightarrow>
          (let new_id = app_actions_id_seq s + 1 in
           Inr (s\<lparr>app_actions := app_actions s @
                    [\<lparr>aa_id = new_id, aa_member_id = member_id, action_type = v,
                      credits_cost = cost, success = True\<rparr>],
                  app_actions_id_seq := new_id\<rparr>, new_id)))"

text \<open>
  The upsert of \<open>members\<close>: \<open>INSERT ... ON CONFLICT (circle_member_id) DO UPDATE SET ...
  RETURNING id, first_seen_at\<close>. \<open>email\<close> and \<open>name\<close> are \<open>VARCHAR(255)\<close>. Only the
  conflict on \<open>circle_member_id\<close> is handled: \<open>email\<close> is \<open>UNIQUE\<close> too, and an email
  held by a row of another member makes the statement fail, for the insert and for the
  update alike.
\<close>

definition upsert_member ::
  "int \<Rightarrow> string \<Rightarrow> string \<Rightarrow> bool \<Rightarrow> string list \<Rightarrow> int \<Rightarrow> db
     \<Rightarrow> db_error + (db \<times> nat \<times> int)" where
  "upsert_member cid em0 nm0 paid tgs now s =
     (case (varchar 255 em0, varchar 255 nm0) of
        (Inl err, _) \<Rightarrow> Inl err
      | (Inr em, Inl err) \<Rightarrow> Inl err
      | (Inr em, Inr nm) \<Rightarrow>
          if list_ex (\<lambda>r. email r = em \<and> circle_member_id r \<noteq> cid) (members s)
          then Inl unique_violation
          else case find (\<lambda>r. circle_member_id r = cid) (members s) of
            Some r \<Rightarrow>
              Inr (s\<lparr>members := map (\<lambda>r. if circle_member_id r = cid
                                          then r\<lparr>email := em, name := nm, is_paid := paid,
                                                 tags := tgs, last_seen_at := now\<rparr>
                                          else r) (members s)\<rparr>,
                   m_id r, first_seen_at r)
          | None \<Rightarrow>
              (let new_id = members_id_seq s + 1 in
               Inr (s\<lparr>members := members s @
                        [\<lparr>m_id = new_id, circle_member_id = cid, email = em, name = nm,
                          is_paid = paid, tags = tgs, first_seen_at = now,
                          last_seen_at = now\<rparr>],
                      members_id_seq := new_id\<rparr>,
                    new_id, now)))"

section \<open>Configuration and time\<close>

text \<open>
  The environment variables the credit logic reads. A numeric variable is the result of
  \<open>parseInt(process.env.X, 10)\<close>, with \<open>None\<close> for \<open>NaN\<close> (unset or not a number);
  \<open>PAID_MEMBER_TAGS\<close> is the parsed list \<open>paidMemberTags\<close>; \<open>DATABASE_URL\<close> says
  whether the variable is set. \<open>LocalTZA\<close> is the time zone of the process, as ECMAScript
  uses it: \<open>LocalTZA t True\<close> is the offset of local time from UTC, in milliseconds, at the
  UTC time \<open>t\<close>, and \<open>LocalTZA t False\<close> the offset at the local time \<open>t\<close>.
\<close>

record env =
  INITIAL_CREDITS_PAID :: "int option"
  INITIAL_CREDITS_FREE :: "int option"
  MONTHLY_CREDITS_PAID :: "int option"
  MONTHLY_CREDITS_FREE :: "int option"
  PAID_MEMBER_TAGS :: "string list"
  DATABASE_URL :: bool
  LocalTZA :: "int \<Rightarrow> bool \<Rightarrow> int"

text \<open>\<open>parseInt(...) || d\<close>: \<open>NaN\<close> and \<open>0\<close> are falsy, and give the default.\<close>

definition or_default :: "int option \<Rightarrow> int \<Rightarrow> int" where
  "or_default v d = (case v of None \<Rightarrow> d | Some n \<Rightarrow> if n = 0 then d else n)"

text \<open>No credit variable set, the default paid tags, and a process whose local time is UTC.\<close>

definition default_env :: env where
  "default_env = \<lparr>INITIAL_CREDITS_PAID = None, INITIAL_CREDITS_FREE = None,
     MONTHLY_CREDITS_PAID = None, MONTHLY_CREDITS_FREE = None,
     PAID_MEMBER_TAGS = [''paid'', ''premium'', ''subscriber'', ''member'', ''vip'', ''pro''],
     DATABASE_URL = True, LocalTZA = (\<lambda>t isUTC. 0)\<rparr>"

text \<open>
  \<open>oneMonthAgo.setMonth(oneMonthAgo.getMonth() - 1)\<close>, by the definitions of ECMAScript
  (\<open>LocalTime\<close>, \<open>UTC\<close>, \<open>Day\<close>, \<open>TimeWithinDay\<close>, \<open>MakeDay\<close>, \<open>MakeDate\<close>).
  Days are counted from 1970-01-01; months from 0, as JavaScript does.
\<close>

definition LocalTime :: "env \<Rightarrow> int \<Rightarrow> int" where
  "LocalTime e t = t + LocalTZA e t True"

definition UTC :: "env \<Rightarrow> int \<Rightarrow> int" where
  "UTC e t = t - LocalTZA e t False"

definition msPerDay :: int where
  "msPerDay = 86400000"

definition Day :: "int \<Rightarrow> int" where
  "Day t = t div msPerDay"

definition TimeWithinDay :: "int \<Rightarrow> int" where
  "TimeWithinDay t = t mod msPerDay"

text \<open>The day number of the first day of month \<open>mn\<close> (0 to 11) of year \<open>y\<close>.\<close>

definition day_of_month_start :: "int \<Rightarrow> int \<Rightarrow> int" where
  "day_of_month_start y mn =
     (let y' = (if mn < 2 then y - 1 else y);
          era = y' div 400;
          yoe = y' - era * 400;
          doy = (153 * (if mn < 2 then mn + 10 else mn - 2) + 2) div 5;
          doe = yoe * 365 + yoe div 4 - yoe div 100 + doy
      in era * 146097 + doe - 719468)"

text \<open>Year, month (0 to 11) and day of the month (1 to 31) of a day number.\<close>

definition civil_of_day :: "int \<Rightarrow> int \<times> int \<times> int" where
  "civil_of_day z =
     (let z' = z + 719468;
          era = z' div 146097;
          doe = z' - era * 146097;
          yoe = (doe - doe div 1460 + doe div 36524 - doe div 146096) div 365;
          doy = doe - (365 * yoe + yoe div 4 - yoe div 100);
          mp = (5 * doy + 2) div 153;
          d = doy - (153 * mp + 2) div 5 + 1;
          mn = (if mp < 10 then mp + 2 else mp - 10);
          y = yoe + era * 400 + (if mn < 2 then 1 else 0)
      in (y, mn, d))"

definition MakeDay :: "int \<Rightarrow> int \<Rightarrow> int \<Rightarrow> int" where
  "MakeDay year month date =
     day_of_month_start (year + month div 12) (month mod 12) + date - 1"

definition MakeDate :: "int \<Rightarrow> int \<Rightarrow> int" where
  "MakeDate day time = day * msPerDay + time"

text \<open>
  \<open>getMonth\<close> reads the month of the local time; \<open>setMonth\<close> keeps the local year, day
  of the month and time within the day, and \<open>MakeDay\<close> counts the day of the month from
  the first day of the new month: a day that the new month does not have falls into the
  month after it.
\<close>

definition oneMonthAgo :: "env \<Rightarrow> int \<Rightarrow> int" where
  "oneMonthAgo e now =
     (let t = LocalTime e now in
      case civil_of_day (Day t) of
        (y, mn, d) \<Rightarrow> UTC e (MakeDate (MakeDay y (mn - 1) d) (TimeWithinDay t)))"

section \<open>POST /api/auth: the database integration\<close>

text \<open>
  \<open>memberData\<close> as it reaches the database integration: the member's Circle id, the
  email and the name that the upsert is given, \<open>is_paid\<close> (\<open>None\<close> for \<open>undefined\<close>:
  the public-profile fallback does not set it) and the normalised tag array (\<open>None\<close> when
  the field is missing; the field \<open>member_tags\<close>, which only the stored copy of the tags
  falls back to, is left out).
\<close>

record memberData =
  md_id :: int
  md_email :: string
  md_name :: string
  md_is_paid :: "bool option"
  md_tags :: "string list option"

text \<open>\<open>String.prototype.includes\<close> and \<open>toLowerCase\<close> (on the code units a \<open>char\<close> holds).\<close>

fun str_includes :: "string \<Rightarrow> string \<Rightarrow> bool" where
  "str_includes [] p = (p = [])"
| "str_includes (c # cs) p = (take (length p) (c # cs) = p \<or> str_includes cs p)"

definition toLowerCase_char :: "char \<Rightarrow> char" where
  "toLowerCase_char c =
     (let n = (of_char c :: nat) in
      if (65 \<le> n \<and> n \<le> 90) \<or> (192 \<le> n \<and> n \<le> 222 \<and> n \<noteq> 215)
      then char_of (n + 32) else c)"

definition toLowerCase :: "string \<Rightarrow> string" where
  "toLowerCase s = map toLowerCase_char s"

text \<open>
  \<open>currentIsPaid = memberData.is_paid !== undefined ? memberData.is_paid :
  (memberData.tags && memberData.tags.some(tag => paidMemberTags.some(paidTag =>
  tag.toLowerCase().includes(paidTag)))) || false\<close>.
\<close>

definition currentIsPaid :: "env \<Rightarrow> memberData \<Rightarrow> bool" where
  "currentIsPaid e md =
     (case md_is_paid md of
        Some b \<Rightarrow> b
      | None \<Rightarrow>
          (case md_tags md of
             None \<Rightarrow> False
           | Some ts \<Rightarrow>
               list_ex (\<lambda>t. list_ex (\<lambda>paidTag. str_includes (toLowerCase t) paidTag)
                                     (PAID_MEMBER_TAGS e)) ts))"

subsection \<open>Step 2: initial grant, upgrade bonus, monthly refresh\<close>

text \<open>
  Each step returns the database and \<open>creditsResult.rows[0]\<close>, the row the last
  \<open>RETURNING *\<close> gave (\<open>None\<close> for \<open>undefined\<close>).
\<close>

definition grant_initial ::
  "env \<Rightarrow> int \<Rightarrow> bool \<Rightarrow> nat \<Rightarrow> db \<Rightarrow> db \<times> member_credits_row option" where
  "grant_initial e now paid dbMemberId s =
     (let initialCredits = (if paid then or_default (INITIAL_CREDITS_PAID e) 100
                            else or_default (INITIAL_CREDITS_FREE e) 10);
          s1 = insert_member_credits dbMemberId initialCredits now s;
          creditsResult = member_credits s1 dbMemberId;
          s2 = insert_credit_history
                 \<lparr>ch_member_id = dbMemberId, change_amount = initialCredits,
                  change_type = initial_grant, balance_after = initialCredits,
                  reference_id = None,
                  ch_notes = ''Initial credit grant: '' @ (if paid then ''paid'' else ''free'')
                             @ '' member''\<rparr> s1
      in (s2, creditsResult))"

definition upgradeBonus :: "env \<Rightarrow> int" where
  "upgradeBonus e = or_default (INITIAL_CREDITS_PAID e) 100 - or_default (INITIAL_CREDITS_FREE e) 10"

text \<open>
  The upgrade bonus, under \<open>if (previousPaidStatus !== memberData.is_paid || tagsChanged)\<close>
  and \<open>if (!previousPaidStatus && memberData.is_paid)\<close>. Without it \<open>creditsResult\<close> keeps
  the row of the first \<open>SELECT\<close>, \<open>creditsRecord\<close>.
\<close>

definition upgrade_step ::
  "env \<Rightarrow> bool \<Rightarrow> bool \<Rightarrow> bool \<Rightarrow> nat \<Rightarrow> member_credits_row \<Rightarrow> db
     \<Rightarrow> db \<times> member_credits_row option" where
  "upgrade_step e previousPaidStatus paid tagsChanged dbMemberId creditsRecord s =
     (if (previousPaidStatus \<noteq> paid \<or> tagsChanged) \<and> (\<not> previousPaidStatus \<and> paid)
      then
        (let newBalance = credits_balance creditsRecord + upgradeBonus e;
             s1 = update_member_credits dbMemberId (\<lambda>r. r\<lparr>credits_balance := newBalance\<rparr>) s;
             creditsResult = member_credits s1 dbMemberId;
             s2 = insert_credit_history
                    \<lparr>ch_member_id = dbMemberId, change_amount = upgradeBonus e,
                     change_type = upgrade_bonus, balance_after = newBalance,
                     reference_id = None,
                     ch_notes = ''Credit bonus for upgrading to paid membership''\<rparr> s1
         in (s2, creditsResult))
      else (s, Some creditsRecord))"

definition monthlyCredits :: "env \<Rightarrow> bool \<Rightarrow> int" where
  "monthlyCredits e paid =
     (if paid then or_default (MONTHLY_CREDITS_PAID e) 100
      else or_default (MONTHLY_CREDITS_FREE e) 10)"

text \<open>
  The monthly refresh, under \<open>if (lastRefresh < oneMonthAgo)\<close>.
  \<open>currentBalance = creditsResult.rows[0]?.credits_balance || creditsRecord.credits_balance\<close>:
  a missing row and a balance of 0 are both falsy, and give the balance of \<open>creditsRecord\<close>.
\<close>

definition refresh_step ::
  "env \<Rightarrow> int \<Rightarrow> bool \<Rightarrow> nat \<Rightarrow> member_credits_row \<Rightarrow> db \<times> member_credits_row option
     \<Rightarrow> db \<times> member_credits_row option" where
  "refresh_step e now paid dbMemberId creditsRecord sc =
     (case sc of (s, creditsResult) \<Rightarrow>
        if last_refreshed_at creditsRecord < oneMonthAgo e now
        then
          (let currentBalance =
                 (case creditsResult of
                    None \<Rightarrow> credits_balance creditsRecord
                  | Some r \<Rightarrow> if credits_balance r = 0 then credits_balance creditsRecord
                              else credits_balance r);
               newBalance = currentBalance + monthlyCredits e paid;
               s1 = update_member_credits dbMemberId
                      (\<lambda>r. r\<lparr>credits_balance := newBalance, last_refreshed_at := now\<rparr>) s;
               creditsResult' = member_credits s1 dbMemberId;
               s2 = insert_credit_history
                      \<lparr>ch_member_id = dbMemberId, change_amount = monthlyCredits e paid,
                       change_type = monthly_refresh, balance_after = newBalance,
                       reference_id = None,
                       ch_notes = ''Monthly credit refresh: '' @ (if paid then ''paid'' else ''free'')
                                  @ '' member''\<rparr> s1
           in (s2, creditsResult'))
        else (s, creditsResult))"

text \<open>
  \<open>if (creditsResult.rows.length === 0 || isNewUser) { ... } else { ... }\<close>, after
  \<open>SELECT * FROM member_credits WHERE member_id = $1\<close>.
\<close>

definition credit_processing ::
  "env \<Rightarrow> int \<Rightarrow> bool \<Rightarrow> bool \<Rightarrow> bool \<Rightarrow> bool \<Rightarrow> nat \<Rightarrow> db
     \<Rightarrow> db \<times> member_credits_row option" where
  "credit_processing e now isNewUser previousPaidStatus paid tagsChanged dbMemberId s =
     (case member_credits s dbMemberId of
        None \<Rightarrow> grant_initial e now paid dbMemberId s
      | Some creditsRecord \<Rightarrow>
          if isNewUser then grant_initial e now paid dbMemberId s
          else refresh_step e now paid dbMemberId creditsRecord
                 (upgrade_step e previousPaidStatus paid tagsChanged dbMemberId creditsRecord s))"

subsection \<open>The connection pool\<close>

text \<open>
  \<open>pool.query(text, values)\<close> runs one statement on a client that the pool picks for this
  call and takes back after it; server.js does not say which. Connections are numbered, and
  which one serves a call is a parameter of the model. In PostgreSQL a transaction belongs
  to one connection: \<open>BEGIN\<close> opens it there, the statements that run on that connection
  are held back until \<open>COMMIT\<close> runs on it, and \<open>ROLLBACK\<close> on it drops them. A statement on
  a connection with no open transaction takes effect at once. A statement that fails inside
  a transaction aborts it: nothing it holds can take effect any more.
\<close>

datatype query = BEGIN | COMMIT | ROLLBACK | Statement "db \<Rightarrow> db_error + db"

datatype transaction = Open "(db \<Rightarrow> db_error + db) list" | Aborted

record pool =
  visible :: db
  transactions :: "nat \<Rightarrow> transaction option"

text \<open>
  \<open>visible\<close> is the committed data, which every connection reads. An open transaction is
  kept as the statements that ran in it; its own view of the data is the visible data with
  these applied, and that is what becomes visible when it commits.
\<close>

definition apply_statement :: "(db \<Rightarrow> db_error + db) \<Rightarrow> db \<Rightarrow> db" where
  "apply_statement q s = (case q s of Inr s' \<Rightarrow> s' | Inl err \<Rightarrow> s)"

definition view :: "pool \<Rightarrow> nat \<Rightarrow> db" where
  "view P c =
     (case transactions P c of
        Some (Open qs) \<Rightarrow> foldl (\<lambda>s q. apply_statement q s) (visible P) qs
      | _ \<Rightarrow> visible P)"

text \<open>
  One query on connection \<open>c\<close>: the pool after it and the error it throws, if any.
  \<open>BEGIN\<close> inside a transaction and \<open>COMMIT\<close> or \<open>ROLLBACK\<close> outside one only give a
  warning; \<open>COMMIT\<close> of an aborted transaction rolls it back.
\<close>

definition pool_query :: "nat \<Rightarrow> query \<Rightarrow> pool \<Rightarrow> pool \<times> db_error option" where
  "pool_query c q P =
     (case q of
        BEGIN \<Rightarrow>
          (case transactions P c of
             None \<Rightarrow> (P\<lparr>transactions := (transactions P)(c := Some (Open []))\<rparr>, None)
           | Some (Open qs) \<Rightarrow> (P, None)
           | Some Aborted \<Rightarrow> (P, Some in_failed_sql_transaction))
      | COMMIT \<Rightarrow>
          (case transactions P c of
             None \<Rightarrow> (P, None)
           | Some (Open qs) \<Rightarrow>
               (P\<lparr>visible := view P c, transactions := (transactions P)(c := None)\<rparr>, None)
           | Some Aborted \<Rightarrow> (P\<lparr>transactions := (transactions P)(c := None)\<rparr>, None))
      | ROLLBACK \<Rightarrow> (P\<lparr>transactions := (transactions P)(c := None)\<rparr>, None)
      | Statement f \<Rightarrow>
          (case transactions P c of
             None \<Rightarrow>
               (case f (visible P) of
                  Inr s' \<Rightarrow> (P\<lparr>visible := s'\<rparr>, None)
                | Inl err \<Rightarrow> (P, Some err))
           | Some (Open qs) \<Rightarrow>
               (case f (view P c) of
                  Inr s' \<Rightarrow> (P\<lparr>transactions := (transactions P)(c := Some (Open (qs @ [f])))\<rparr>, None)
                | Inl err \<Rightarrow> (P\<lparr>transactions := (transactions P)(c := Some Aborted)\<rparr>, Some err))
           | Some Aborted \<Rightarrow> (P, Some in_failed_sql_transaction)))"

text \<open>
  A sequence of awaited \<open>pool.query\<close> calls. \<open>conn k\<close> is the connection that serves call
  number \<open>k\<close> of the sequence. The first call that throws ends it: the result is the pool,
  the number of the next call, and the error.
\<close>

fun run_queries :: "(nat \<Rightarrow> nat) \<Rightarrow> nat \<Rightarrow> query list \<Rightarrow> pool \<Rightarrow> pool \<times> nat \<times> db_error option" where
  "run_queries conn k [] P = (P, k, None)"
| "run_queries conn k (q # qs) P =
     (case pool_query (conn k) q P of
        (P', Some err) \<Rightarrow> (P', k + 1, Some err)
      | (P', None) \<Rightarrow> run_queries conn (k + 1) qs P')"

text \<open>
  A query may also fail for a reason that is not in the data (the connection is lost, the
  server is shutting down): \<open>fail = Some k\<close> makes query number \<open>k\<close> of the list (from 0)
  fail; a \<open>k\<close> beyond the list makes none fail.
\<close>

definition failing :: "nat option \<Rightarrow> query list \<Rightarrow> query list" where
  "failing fail qs =
     (case fail of
        None \<Rightarrow> qs
      | Some k \<Rightarrow> if k < length qs then qs[k := Statement (\<lambda>s. Inl statement_failed)] else qs)"

subsection \<open>Step 3: settlement of the purchase tags\<close>

text \<open>
  The statements between \<open>pool.query('BEGIN')\<close> and \<open>pool.query('COMMIT')\<close>: one \<open>UPDATE\<close>
  of the balance, then for each purchase an \<open>INSERT\<close> into \<open>processed_purchase_tags\<close> and
  one into \<open>credit_history\<close>.
\<close>

definition settlement_statements ::
  "nat \<Rightarrow> int \<Rightarrow> purchase_tag list \<Rightarrow> (db \<Rightarrow> db_error + db) list" where
  "settlement_statements dbMemberId newBalance tagsToProcess =
     (\<lambda>s. Inr (update_member_credits dbMemberId (\<lambda>r. r\<lparr>credits_balance := newBalance\<rparr>) s)) #
     concat (map (\<lambda>p.
       [insert_processed_purchase_tags dbMemberId (tag p) (credits p),
        (\<lambda>s. Inr (insert_credit_history
          \<lparr>ch_member_id = dbMemberId, change_amount = credits p, change_type = purchase,
           balance_after = newBalance, reference_id = None,
           ch_notes = ''One-time purchase: '' @ tag p\<rparr> s))]) tagsToProcess)"

text \<open>
  The result of step 3: the visible database, \<open>creditsResult.rows[0]\<close> and
  \<open>processedTags\<close>. Every query goes through \<open>pool.query\<close>: call 0 is \<open>BEGIN\<close>, the
  statements and \<open>COMMIT\<close> follow, and the \<open>catch\<close> block sends \<open>ROLLBACK\<close> as the next
  call after the one that threw. No connection has an open transaction when the settlement
  starts. A missing \<open>creditsResult.rows[0]\<close> throws inside the \<open>try\<close> block before any
  statement; a \<open>BEGIN\<close> that throws is caught by the outer \<open>try\<close>, which sends nothing.
\<close>

definition process_purchase_tags ::
  "(nat \<Rightarrow> nat) \<Rightarrow> nat option \<Rightarrow> string list option \<Rightarrow> nat \<Rightarrow> db \<times> member_credits_row option
     \<Rightarrow> db \<times> member_credits_row option \<times> string list" where
  "process_purchase_tags conn fail tgs dbMemberId sc =
     (case sc of (s, creditsResult) \<Rightarrow>
        let tagsToProcess = purchaseTags tgs;
            totalCreditsToAdd = sum_list (map credits tagsToProcess)
        in if tagsToProcess \<noteq> [] \<and> totalCreditsToAdd > 0
           then
             (case pool_query (conn 0) BEGIN \<lparr>visible = s, transactions = (\<lambda>c. None)\<rparr> of
                (P, Some err) \<Rightarrow> (visible P, creditsResult, [])
              | (P, None) \<Rightarrow>
                  (case creditsResult of
                     None \<Rightarrow> (visible (fst (pool_query (conn 1) ROLLBACK P)), None, [])
                   | Some r \<Rightarrow>
                       (let newBalance = credits_balance r + totalCreditsToAdd in
                        case run_queries conn 1
                               (failing fail
                                  (map Statement
                                     (settlement_statements dbMemberId newBalance tagsToProcess)
                                   @ [COMMIT])) P of
                          (P', k, None) \<Rightarrow>
                            (visible P', Some (r\<lparr>credits_balance := newBalance\<rparr>),
                             map tag tagsToProcess)
                        | (P', k, Some err) \<Rightarrow>
                            (visible (fst (pool_query (conn k) ROLLBACK P')), Some r, []))))
           else (s, creditsResult, []))"

subsection \<open>The whole database integration\<close>

text \<open>
  What the response carries of the credit logic. \<open>db_error\<close> is set by the outer
  \<open>catch\<close>, with the fallback balance 0.
\<close>

record auth_member =
  am_credits_balance :: int
  am_is_new_user :: bool
  am_processed_purchase_tags :: "string list"
  am_db_error :: bool

definition db_error_fallback :: auth_member where
  "db_error_fallback = \<lparr>am_credits_balance = 0, am_is_new_user = False,
     am_processed_purchase_tags = [], am_db_error = True\<rparr>"

text \<open>
  Steps 1 and 2: the snapshot of the member's row read before the upsert, the upsert,
  \<open>isNewUser\<close>, and the credit processing. The result is the database and, unless the
  upsert threw, \<open>creditsResult.rows[0]\<close>, \<open>dbMemberId\<close> and \<open>isNewUser\<close>.
\<close>

definition auth_steps_1_2 ::
  "env \<Rightarrow> int \<Rightarrow> memberData \<Rightarrow> db \<Rightarrow> db \<times> (member_credits_row option \<times> nat \<times> bool) option" where
  "auth_steps_1_2 e now md s =
     (let existingMember = find (\<lambda>r. circle_member_id r = md_id md) (members s);
          previousPaidStatus = (case existingMember of None \<Rightarrow> False | Some r \<Rightarrow> is_paid r);
          previousTags = (case existingMember of None \<Rightarrow> [] | Some r \<Rightarrow> tags r);
          paid = currentIsPaid e md;
          currentTags = (case md_tags md of None \<Rightarrow> [] | Some ts \<Rightarrow> ts)
      in case upsert_member (md_id md) (md_email md) (md_name md) paid currentTags now s of
           Inl err \<Rightarrow> (s, None)
         | Inr (s1, dbMemberId, firstSeenAt) \<Rightarrow>
             (let isNewUser = (now - firstSeenAt < 30000);
                  tagsChanged = (previousTags \<noteq> currentTags)
              in case credit_processing e now isNewUser previousPaidStatus paid tagsChanged
                        dbMemberId s1 of
                   (s2, creditsResult) \<Rightarrow> (s2, Some (creditsResult, dbMemberId, isNewUser))))"

text \<open>
  The whole \<open>try\<close> block: steps 1 and 2, the settlement of the purchase tags, and the
  member data of the response. \<open>conn\<close> gives the connections that serve the queries of
  the settlement and \<open>fail\<close> the one that fails for a reason of its own, if any. The
  queries of steps 1 and 2 are single statements outside any transaction and take effect
  at once, whichever connection serves them. The handler enters the block only when the
  member data carry an id and \<open>DATABASE_URL\<close> is set, which is the case considered here.
\<close>

definition auth_db_integration ::
  "env \<Rightarrow> int \<Rightarrow> (nat \<Rightarrow> nat) \<Rightarrow> nat option \<Rightarrow> memberData \<Rightarrow> db \<Rightarrow> db \<times> auth_member" where
  "auth_db_integration e now conn fail md s =
     (case auth_steps_1_2 e now md s of
        (s', None) \<Rightarrow> (s', db_error_fallback)
      | (s2, Some (creditsResult, dbMemberId, isNewUser)) \<Rightarrow>
          (case process_purchase_tags conn fail (md_tags md) dbMemberId (s2, creditsResult) of
             (s3, None, processedTags) \<Rightarrow> (s3, db_error_fallback)
           | (s3, Some finalCreditsData, processedTags) \<Rightarrow>
               (s3, \<lparr>am_credits_balance = credits_balance finalCreditsData,
                     am_is_new_user = isNewUser,
                     am_processed_purchase_tags = processedTags,
                     am_db_error = False\<rparr>)))"

section \<open>POST /api/credits/spend\<close>

record spend_request =
  rq_circle_member_id :: "int option"
  rq_action_type :: "string option"
  rq_credits_cost :: "int option"

datatype spend_response =
    spend_ok (action_id: nat) (credits_spent: int) (credits_remaining: int)
  | spend_failed (status: nat) (message: string)

text \<open>
  The status of the outer \<open>catch\<close>: \<open>error.message === 'Insufficient credits' ? 402 :
  error.message.includes('not found') ? 404 : 500\<close>.
\<close>

definition statusCode :: "string \<Rightarrow> nat" where
  "statusCode msg =
     (if msg = ''Insufficient credits'' then 402
      else if str_includes msg ''not found'' then 404 else 500)"

text \<open>The message of the error that a failed query throws.\<close>

fun decimal :: "nat \<Rightarrow> string" where
  "decimal n = (if n < 10 then [char_of (48 + n)]
                else decimal (n div 10) @ [char_of (48 + n mod 10)])"

definition error_message :: "db_error \<Rightarrow> string" where
  "error_message err =
     (case err of
        unique_violation \<Rightarrow>
          ''duplicate key value violates unique constraint \"members_email_key\"''
      | string_data_right_truncation n \<Rightarrow>
          ''value too long for type character varying('' @ decimal n @ '')''
      | in_failed_sql_transaction \<Rightarrow>
          ''current transaction is aborted, commands ignored until end of transaction block''
      | statement_failed \<Rightarrow> ''Connection terminated unexpectedly'')"

text \<open>
  The \<open>try\<close> block between \<open>BEGIN\<close> and \<open>COMMIT\<close>, all on the one client taken with
  \<open>pool.connect()\<close>; \<open>Inl\<close> carries the message of the \<open>Error\<close> thrown.
\<close>

definition spend_transaction ::
  "int \<Rightarrow> string \<Rightarrow> int \<Rightarrow> db \<Rightarrow> string + (db \<times> spend_response)" where
  "spend_transaction cid atype cost s =
     (case find (\<lambda>r. circle_member_id r = cid) (members s) of
        None \<Rightarrow> Inl ''Member or credit record not found''
      | Some m \<Rightarrow>
          (case member_credits s (m_id m) of
             None \<Rightarrow> Inl ''Member or credit record not found''
           | Some mc \<Rightarrow>
               if credits_balance mc < cost then Inl ''Insufficient credits''
               else
                 (let newBalance = credits_balance mc - cost;
                      s1 = update_member_credits (m_id m)
                             (\<lambda>r. r\<lparr>credits_balance := newBalance\<rparr>) s
                  in case insert_app_actions (m_id m) atype cost s1 of
                       Inl err \<Rightarrow> Inl (error_message err)
                     | Inr (s2, actionId) \<Rightarrow>
                         Inr (insert_credit_history
                                \<lparr>ch_member_id = m_id m, change_amount = - cost,
                                 change_type = action_cost, balance_after = newBalance,
                                 reference_id = Some actionId,
                                 ch_notes = ''Credits spent on '' @ atype\<rparr> s2,
                              spend_ok actionId cost newBalance))))"

text \<open>
  The handler. A request field is \<open>None\<close> when absent; \<open>0\<close> and the empty string are
  falsy as well. \<open>credits_cost\<close> defaults to 1. \<open>ROLLBACK\<close> in the \<open>catch\<close> block, on
  the same client, returns to the state at \<open>BEGIN\<close>.
\<close>

definition spend :: "env \<Rightarrow> spend_request \<Rightarrow> db \<Rightarrow> db \<times> spend_response" where
  "spend e rq s =
     (if \<not> DATABASE_URL e then (s, spend_failed 501 ''Credit system requires database configuration'')
      else case (rq_circle_member_id rq, rq_action_type rq) of
        (Some cid, Some atype) \<Rightarrow>
          if cid = 0 \<or> atype = [] then (s, spend_failed 400 ''circle_member_id and action_type are required'')
          else
            (let credits_cost = (case rq_credits_cost rq of None \<Rightarrow> 1 | Some c \<Rightarrow> c);
                 begin_state = s
             in case spend_transaction cid atype credits_cost s of
                  Inr (s', response) \<Rightarrow> (s', response)
                | Inl msg \<Rightarrow> (begin_state, spend_failed (statusCode msg) msg))
      | _ \<Rightarrow> (s, spend_failed 400 ''circle_member_id and action_type are required''))"

section \<open>POST /api/admin/refresh-credits/:circle_member_id\<close>

text \<open>
  The handler behind \<open>checkAdminToken\<close>; \<open>admin_email\<close> is \<open>req.adminUser.email\<close>. The
  response is the status with \<open>previous_balance\<close>, \<open>credits_added\<close> and
  \<open>current_balance\<close>. \<open>member.credits_balance || 0\<close>: the \<open>LEFT JOIN\<close> gives \<open>null\<close>
  for a member with no \<open>member_credits\<close> row.
\<close>

datatype admin_response =
    admin_ok (previous_balance: int) (credits_added: int) (current_balance: int)
  | admin_failed nat

definition admin_refresh_credits ::
  "env \<Rightarrow> int \<Rightarrow> string \<Rightarrow> int \<Rightarrow> int option \<Rightarrow> bool option \<Rightarrow> db \<Rightarrow> db \<times> admin_response" where
  "admin_refresh_credits e now admin_email cid bonus_opt force_opt s =
     (let bonus_credits = (case bonus_opt of None \<Rightarrow> 0 | Some b \<Rightarrow> b);
          force_refresh = (case force_opt of None \<Rightarrow> False | Some f \<Rightarrow> f)
      in case find (\<lambda>r. circle_member_id r = cid) (members s) of
        None \<Rightarrow> (s, admin_failed 404)
      | Some member \<Rightarrow>
          (let member_balance = (case member_credits s (m_id member) of
                                   None \<Rightarrow> 0 | Some mc \<Rightarrow> credits_balance mc);
               s1 = (if bonus_credits > 0
                     then
                       (let newBalance = member_balance + bonus_credits in
                        insert_credit_history
                          \<lparr>ch_member_id = m_id member, change_amount = bonus_credits,
                           change_type = admin_bonus, balance_after = newBalance,
                           reference_id = None,
                           ch_notes = ''Manual credit bonus added by admin '' @ admin_email\<rparr>
                          (update_member_credits (m_id member)
                             (\<lambda>r. r\<lparr>credits_balance := newBalance\<rparr>) s))
                     else s);
               added1 = (if bonus_credits > 0 then bonus_credits else 0);
               monthly = monthlyCredits e (is_paid member);
               s2 = (if force_refresh
                     then
                       (let currentBalance = member_balance + bonus_credits;
                            newBalance = currentBalance + monthly
                        in insert_credit_history
                             \<lparr>ch_member_id = m_id member, change_amount = monthly,
                              change_type = admin_refresh, balance_after = newBalance,
                              reference_id = None,
                              ch_notes = ''Manual monthly refresh by admin '' @ admin_email\<rparr>
                             (update_member_credits (m_id member)
                                (\<lambda>r. r\<lparr>credits_balance := newBalance, last_refreshed_at := now\<rparr>)
                                s1))
                     else s1);
               added2 = (if force_refresh then added1 + monthly else added1);
               finalBalance = (case member_credits s2 (m_id member) of
                                 None \<Rightarrow> 0 | Some mc \<Rightarrow> credits_balance mc)
           in (s2, admin_ok member_balance added2 finalBalance)))"

section \<open>Notions used in the statements\<close>

text \<open>The rows of one change type, and the rows an operation appended to the history.\<close>

definition of_type :: "change_type \<Rightarrow> credit_history_row list \<Rightarrow> credit_history_row list" where
  "of_type ty rows = filter (\<lambda>r. change_type r = ty) rows"

definition appended_history :: "db \<Rightarrow> db \<Rightarrow> credit_history_row list" where
  "appended_history s s' = drop (length (credit_history s)) (credit_history s')"

text \<open>
  The two sides of the ledger equation for one member: the stored balance, and the sum of
  the amounts of the member's history rows.
\<close>

definition stored_balance :: "db \<Rightarrow> nat \<Rightarrow> int option" where
  "stored_balance s member_id = map_option credits_balance (member_credits s member_id)"

definition history_sum :: "db \<Rightarrow> nat \<Rightarrow> int" where
  "history_sum s member_id =
     sum_list (map change_amount (filter (\<lambda>r. ch_member_id r = member_id) (credit_history s)))"

text \<open>
  What the settlement of purchase tags can do to the database, whatever connections serve
  it and whatever fails: the members' rows stay, the history grows by purchases and rows of
  the trigger only, and no \<open>last_refreshed_at\<close> changes.
\<close>

definition settlement_rows :: "credit_history_row list \<Rightarrow> bool" where
  "settlement_rows P =
     (of_type initial_grant P = [] \<and> of_type monthly_refresh P = [] \<and> of_type upgrade_bonus P = []
      \<and> of_type action_cost P = [] \<and> of_type admin_bonus P = [] \<and> of_type admin_refresh P = [])"

definition settles :: "db \<Rightarrow> db \<Rightarrow> bool" where
  "settles s s' =
     (members s' = members s
      \<and> (\<exists>P. credit_history s' = credit_history s @ P \<and> settlement_rows P)
      \<and> (\<forall>k. map_option last_refreshed_at (member_credits s' k)
               = map_option last_refreshed_at (member_credits s k)))"

definition settling :: "(db \<Rightarrow> db_error + db) \<Rightarrow> bool" where
  "settling f = (\<forall>s s'. f s = Inr s' \<longrightarrow> settles s s')"

definition pool_inv :: "db \<Rightarrow> pool \<Rightarrow> bool" where
  "pool_inv s P =
     (settles s (visible P)
      \<and> (\<forall>c qs. transactions P c = Some (Open qs) \<longrightarrow> list_all settling qs))"

definition settling_query :: "query \<Rightarrow> bool" where
  "settling_query q = (case q of Statement f \<Rightarrow> settling f | _ \<Rightarrow> True)"

section \<open>Example data\<close>

text \<open>
  Concrete members, rows and databases, at which the theorems below are instantiated.
\<close>

definition alice_free :: memberData where
  "alice_free = \<lparr>md_id = 501, md_email = ''alice@example.com'', md_name = ''Alice'',
     md_is_paid = Some False, md_tags = Some []\<rparr>"

definition alice_paid :: memberData where
  "alice_paid = \<lparr>md_id = 501, md_email = ''alice@example.com'', md_name = ''Alice'',
     md_is_paid = Some True, md_tags = Some [''premium'']\<rparr>"

definition alice_row :: "int \<Rightarrow> members_row" where
  "alice_row t = \<lparr>m_id = 1, circle_member_id = 501, email = ''alice@example.com'',
     name = ''Alice'', is_paid = False, tags = [], first_seen_at = t, last_seen_at = t\<rparr>"

definition trigger_grant_10 :: credit_history_row where
  "trigger_grant_10 = \<lparr>ch_member_id = 1, change_amount = 10, change_type = initial_grant,
     balance_after = 10, reference_id = None,
     ch_notes = ''Initial credit grant for new member''\<rparr>"

definition app_grant_10 :: credit_history_row where
  "app_grant_10 = \<lparr>ch_member_id = 1, change_amount = 10, change_type = initial_grant,
     balance_after = 10, reference_id = None,
     ch_notes = ''Initial credit grant: free member''\<rparr>"

text \<open>The database after the first authentication of a free member at time \<open>t\<close>.\<close>

definition db_alice :: "int \<Rightarrow> db" where
  "db_alice t = \<lparr>members = [alice_row t],
     member_credits = [1 \<mapsto> \<lparr>credits_balance = 10, last_refreshed_at = t\<rparr>],
     app_actions = [], credit_history = [trigger_grant_10, app_grant_10],
     processed_purchase_tags = [], members_id_seq = 1, app_actions_id_seq = 0\<rparr>"

definition alice_row_paid :: "int \<Rightarrow> int \<Rightarrow> members_row" where
  "alice_row_paid t t' = \<lparr>m_id = 1, circle_member_id = 501, email = ''alice@example.com'',
     name = ''Alice'', is_paid = True, tags = [''premium''], first_seen_at = t, last_seen_at = t'\<rparr>"

definition trigger_addition_90 :: credit_history_row where
  "trigger_addition_90 = \<lparr>ch_member_id = 1, change_amount = 90, change_type = credit_addition,
     balance_after = 100, reference_id = None,
     ch_notes = ''Automatic log from credit balance change''\<rparr>"

definition upgrade_bonus_90 :: credit_history_row where
  "upgrade_bonus_90 = \<lparr>ch_member_id = 1, change_amount = 90, change_type = upgrade_bonus,
     balance_after = 100, reference_id = None,
     ch_notes = ''Credit bonus for upgrading to paid membership''\<rparr>"

text \<open>The database after the member of \<open>db_alice t\<close> has come back as a paid member at \<open>t'\<close>.\<close>

definition db_alice_upgraded :: "int \<Rightarrow> int \<Rightarrow> db" where
  "db_alice_upgraded t t' = \<lparr>members = [alice_row_paid t t'],
     member_credits = [1 \<mapsto> \<lparr>credits_balance = 100, last_refreshed_at = t\<rparr>],
     app_actions = [],
     credit_history = [trigger_grant_10, app_grant_10, trigger_addition_90, upgrade_bonus_90],
     processed_purchase_tags = [], members_id_seq = 1, app_actions_id_seq = 0\<rparr>"

definition alice_row_seen :: "int \<Rightarrow> int \<Rightarrow> members_row" where
  "alice_row_seen t t' = \<lparr>m_id = 1, circle_member_id = 501, email = ''alice@example.com'',
     name = ''Alice'', is_paid = False, tags = [], first_seen_at = t, last_seen_at = t'\<rparr>"

definition trigger_addition_10 :: credit_history_row where
  "trigger_addition_10 = \<lparr>ch_member_id = 1, change_amount = 10, change_type = credit_addition,
     balance_after = 20, reference_id = None,
     ch_notes = ''Automatic log from credit balance change''\<rparr>"

definition monthly_refresh_10 :: credit_history_row where
  "monthly_refresh_10 = \<lparr>ch_member_id = 1, change_amount = 10, change_type = monthly_refresh,
     balance_after = 20, reference_id = None,
     ch_notes = ''Monthly credit refresh: free member''\<rparr>"

text \<open>The database after the member of \<open>db_alice t\<close> got a monthly refresh at \<open>t'\<close>.\<close>

definition db_alice_refreshed :: "int \<Rightarrow> int \<Rightarrow> db" where
  "db_alice_refreshed t t' = \<lparr>members = [alice_row_seen t t'],
     member_credits = [1 \<mapsto> \<lparr>credits_balance = 20, last_refreshed_at = t'\<rparr>],
     app_actions = [],
     credit_history = [trigger_grant_10, app_grant_10, trigger_addition_10, monthly_refresh_10],
     processed_purchase_tags = [], members_id_seq = 1, app_actions_id_seq = 0\<rparr>"

text \<open>The database after the member of \<open>db_alice t\<close> came back at \<open>t'\<close> and nothing was due.\<close>

definition db_alice_seen :: "int \<Rightarrow> int \<Rightarrow> db" where
  "db_alice_seen t t' = \<lparr>members = [alice_row_seen t t'],
     member_credits = [1 \<mapsto> \<lparr>credits_balance = 10, last_refreshed_at = t\<rparr>],
     app_actions = [], credit_history = [trigger_grant_10, app_grant_10],
     processed_purchase_tags = [], members_id_seq = 1, app_actions_id_seq = 0\<rparr>"

definition alice_purchases :: memberData where
  "alice_purchases = \<lparr>md_id = 501, md_email = ''alice@example.com'', md_name = ''Alice'',
     md_is_paid = Some False, md_tags = Some [''$10'', ''$25'']\<rparr>"

text \<open>
  The database after steps 1 and 2 of the authentication of the member of \<open>db_alice t\<close>
  at \<open>t'\<close>, with the tags \<open>"$10"\<close> and \<open>"$25"\<close>: only the member's row has changed.
\<close>

definition db_alice_tagged :: "int \<Rightarrow> int \<Rightarrow> db" where
  "db_alice_tagged t t' =
     \<lparr>members = [\<lparr>m_id = 1, circle_member_id = 501, email = ''alice@example.com'',
                   name = ''Alice'', is_paid = False, tags = [''$10'', ''$25''],
                   first_seen_at = t, last_seen_at = t'\<rparr>],
      member_credits = [1 \<mapsto> \<lparr>credits_balance = 10, last_refreshed_at = t\<rparr>],
      app_actions = [], credit_history = [trigger_grant_10, app_grant_10],
      processed_purchase_tags = [], members_id_seq = 1, app_actions_id_seq = 0\<rparr>"

definition db_balance_3 :: db where
  "db_balance_3 = \<lparr>members = [alice_row 1704844800000],
     member_credits = [1 \<mapsto> \<lparr>credits_balance = 3, last_refreshed_at = 1704844800000\<rparr>],
     app_actions = [], credit_history = [], processed_purchase_tags = [],
     members_id_seq = 1, app_actions_id_seq = 0\<rparr>"

definition spend_request_of :: "int \<Rightarrow> spend_request" where
  "spend_request_of cost = \<lparr>rq_circle_member_id = Some 501,
     rq_action_type = Some ''generate_image'', rq_credits_cost = Some cost\<rparr>"

text \<open>A database in which the member has a row and no credit account.\<close>

definition db_no_account :: db where
  "db_no_account = \<lparr>members = [alice_row 1704844800000], member_credits = Map.empty,
     app_actions = [], credit_history = [], processed_purchase_tags = [],
     members_id_seq = 1, app_actions_id_seq = 0\<rparr>"

text \<open>
  Two ways in which the pool may serve a sequence of queries: all on connection 0, as when
  no other request uses the pool; or the first on connection 0 and the later ones on
  connection 1, as when another request takes a client while the first query runs.
\<close>

definition one_connection :: "nat \<Rightarrow> nat" where
  "one_connection k = 0"

definition second_connection :: "nat \<Rightarrow> nat" where
  "second_connection k = (if k = 0 then 0 else 1)"

text \<open>
  The database of \<open>db_alice_tagged t t'\<close> after the balance update, the processed tag
  \<open>"$10"\<close> and its purchase row, without the rows of \<open>"$25"\<close>.
\<close>

definition db_alice_partly_settled :: "int \<Rightarrow> int \<Rightarrow> db" where
  "db_alice_partly_settled t t' =
     \<lparr>members = [\<lparr>m_id = 1, circle_member_id = 501, email = ''alice@example.com'',
                   name = ''Alice'', is_paid = False, tags = [''$10'', ''$25''],
                   first_seen_at = t, last_seen_at = t'\<rparr>],
      member_credits = [1 \<mapsto> \<lparr>credits_balance = 45, last_refreshed_at = t\<rparr>],
      app_actions = [],
      credit_history = [trigger_grant_10, app_grant_10,
        \<lparr>ch_member_id = 1, change_amount = 35, change_type = credit_addition,
          balance_after = 45, reference_id = None,
          ch_notes = ''Automatic log from credit balance change''\<rparr>,
        \<lparr>ch_member_id = 1, change_amount = 10, change_type = purchase,
          balance_after = 45, reference_id = None, ch_notes = ''One-time purchase: $10''\<rparr>],
      processed_purchase_tags =
        [\<lparr>ppt_member_id = 1, tag_value = ''$10'', credits_granted = 10\<rparr>],
      members_id_seq = 1, app_actions_id_seq = 0\<rparr>"

text \<open>
  A configuration with every credit variable set: 50 initial credits for a free member and
  20 for a paid one, 25 and 40 a month, and \<open>gold\<close> as the only paid tag.
\<close>

definition trial_env :: env where
  "trial_env = \<lparr>INITIAL_CREDITS_PAID = Some 20, INITIAL_CREDITS_FREE = Some 50,
     MONTHLY_CREDITS_PAID = Some 40, MONTHLY_CREDITS_FREE = Some 25,
     PAID_MEMBER_TAGS = [''gold''], DATABASE_URL = True, LocalTZA = (\<lambda>t isUTC. 0)\<rparr>"

definition alice_gold :: memberData where
  "alice_gold = \<lparr>md_id = 501, md_email = ''alice@example.com'', md_name = ''Alice'',
     md_is_paid = None, md_tags = Some [''Gold Plan'']\<rparr>"

text \<open>
  Under \<open>trial_env\<close>: the database after the first authentication of the free member at
  \<open>t\<close>, and after she has then spent 20 credits.
\<close>

definition db_trial_50 :: "int \<Rightarrow> db" where
  "db_trial_50 t = \<lparr>members = [alice_row t],
     member_credits = [1 \<mapsto> \<lparr>credits_balance = 50, last_refreshed_at = t\<rparr>],
     app_actions = [],
     credit_history =
       [\<lparr>ch_member_id = 1, change_amount = 50, change_type = initial_grant,
         balance_after = 50, reference_id = None,
         ch_notes = ''Initial credit grant for new member''\<rparr>,
        \<lparr>ch_member_id = 1, change_amount = 50, change_type = initial_grant,
         balance_after = 50, reference_id = None,
         ch_notes = ''Initial credit grant: free member''\<rparr>],
     processed_purchase_tags = [], members_id_seq = 1, app_actions_id_seq = 0\<rparr>"

definition db_trial_30 :: "int \<Rightarrow> db" where
  "db_trial_30 t = \<lparr>members = [alice_row t],
     member_credits = [1 \<mapsto> \<lparr>credits_balance = 30, last_refreshed_at = t\<rparr>],
     app_actions = [\<lparr>aa_id = 1, aa_member_id = 1, action_type = ''generate_image'',
                     credits_cost = 20, success = True\<rparr>],
     credit_history =
       [\<lparr>ch_member_id = 1, change_amount = 50, change_type = initial_grant,
         balance_after = 50, reference_id = None,
         ch_notes = ''Initial credit grant for new member''\<rparr>,
        \<lparr>ch_member_id = 1, change_amount = 50, change_type = initial_grant,
         balance_after = 50, reference_id = None,
         ch_notes = ''Initial credit grant: free member''\<rparr>,
        \<lparr>ch_member_id = 1, change_amount = - 20, change_type = credit_deduction,
         balance_after = 30, reference_id = None,
         ch_notes = ''Automatic log from credit balance change''\<rparr>,
        \<lparr>ch_member_id = 1, change_amount = - 20, change_type = action_cost,
         balance_after = 30, reference_id = Some 1,
         ch_notes = ''Credits spent on generate_image''\<rparr>],
     processed_purchase_tags = [], members_id_seq = 1, app_actions_id_seq = 1\<rparr>"

text \<open>
  US Eastern time in 2024: five hours behind UTC, and four from 2024-03-10T07:00:00Z to
  2024-11-03T06:00:00Z. As local times, the hours from 03:00 on 10 March to 02:00 on
  3 November have the offset of four hours.
\<close>

definition eastern_2024 :: "int \<Rightarrow> bool \<Rightarrow> int" where
  "eastern_2024 t isUTC =
     (if isUTC
      then (if 1710054000000 \<le> t \<and> t < 1730613600000 then - 14400000 else - 18000000)
      else (if 1710039600000 \<le> t \<and> t < 1730599200000 then - 14400000 else - 18000000))"

definition eastern_env :: env where
  "eastern_env = \<lparr>INITIAL_CREDITS_PAID = None, INITIAL_CREDITS_FREE = None,
     MONTHLY_CREDITS_PAID = Some 250, MONTHLY_CREDITS_FREE = Some 25,
     PAID_MEMBER_TAGS = [''paid'', ''premium'', ''subscriber'', ''member'', ''vip'', ''pro''],
     DATABASE_URL = True, LocalTZA = eastern_2024\<rparr>"

text \<open>An action type of 51 characters, and a purchase tag of 102.\<close>

definition long_action_type :: string where
  "long_action_type = ''generate_image_'' @ replicate 36 CHR ''x''"

definition long_tag :: string where
  "long_tag = ''$'' @ replicate 99 CHR ''0'' @ ''25''"

text \<open>The database of \<open>db_alice t\<close> after the member has spent 4 credits.\<close>

definition db_alice_spent :: "int \<Rightarrow> db" where
  "db_alice_spent t = \<lparr>members = [alice_row t],
     member_credits = [1 \<mapsto> \<lparr>credits_balance = 6, last_refreshed_at = t\<rparr>],
     app_actions = [\<lparr>aa_id = 1, aa_member_id = 1, action_type = ''generate_image'',
                     credits_cost = 4, success = True\<rparr>],
     credit_history = [trigger_grant_10, app_grant_10,
       \<lparr>ch_member_id = 1, change_amount = - 4, change_type = credit_deduction,
         balance_after = 6, reference_id = None,
         ch_notes = ''Automatic log from credit balance change''\<rparr>,
       \<lparr>ch_member_id = 1, change_amount = - 4, change_type = action_cost,
         balance_after = 6, reference_id = Some 1,
         ch_notes = ''Credits spent on generate_image''\<rparr>],
     processed_purchase_tags = [], members_id_seq = 1, app_actions_id_seq = 1\<rparr>"

definition alice_long_tag :: memberData where
  "alice_long_tag = \<lparr>md_id = 501, md_email = ''alice@example.com'', md_name = ''Alice'',
     md_is_paid = Some False, md_tags = Some [''$10'', long_tag]\<rparr>"

text \<open>The member of \<open>db_alice t\<close> with a balance of -90 instead of 10.\<close>

definition db_alice_owing :: "int \<Rightarrow> db" where
  "db_alice_owing t = \<lparr>members = [alice_row t],
     member_credits = [1 \<mapsto> \<lparr>credits_balance = - 90, last_refreshed_at = t\<rparr>],
     app_actions = [], credit_history = [], processed_purchase_tags = [],
     members_id_seq = 1, app_actions_id_seq = 0\<rparr>"

section \<open>Purchase-tag detection: the boundaries\<close>

lemma collect_purchase_tags_append:
  "collect_purchase_tags (xs @ ys) = collect_purchase_tags xs @ collect_purchase_tags ys"
  by (induction xs) (auto split: option.splits)

lemma purchase_of_tag_range:
  "purchase_of_tag t = Some p \<Longrightarrow> 1 \<le> credits p \<and> credits p \<le> 10000"
  by (auto simp: purchase_of_tag_def Let_def split: option.splits if_splits)

lemma purchase_of_tag_out_of_range:
  "purchaseMatch (trim t) = Some ds \<Longrightarrow> \<not> (1 \<le> parseInt ds \<and> parseInt ds \<le> 10000) \<Longrightarrow>
   purchase_of_tag t = None"
  by (auto simp: purchase_of_tag_def Let_def)

lemma purchase_of_tag_0: "purchase_of_tag ''0'' = None"
  by code_simp

lemma purchase_of_tag_10001: "purchase_of_tag ''10001'' = None"
  by code_simp

lemma purchase_of_tag_1: "purchase_of_tag ''1'' = Some \<lparr>tag = ''1'', credits = 1\<rparr>"
  by code_simp

lemma purchase_of_tag_10000:
  "purchase_of_tag ''10000'' = Some \<lparr>tag = ''10000'', credits = 10000\<rparr>"
  by code_simp

lemma purchase_of_tag_dollar_50: "purchase_of_tag ''$50'' = Some \<lparr>tag = ''$50'', credits = 50\<rparr>"
  by code_simp

lemma purchase_of_tag_50: "purchase_of_tag ''50'' = Some \<lparr>tag = ''50'', credits = 50\<rparr>"
  by code_simp

text \<open>
  Claim C8. The tags \<open>"0"\<close> and \<open>"10001"\<close> push nothing; \<open>"1"\<close> and \<open>"10000"\<close> are
  pushed; \<open>"$50"\<close> and \<open>"50"\<close> are both pushed with 50 credits. For every tag that
  matches the pattern with an amount outside 1 to 10000, nothing is pushed and the loop goes
  on: the tags before and after it are collected as if it were not there. The loop has no
  error result, and every purchase it collects has an amount from 1 to 10000.
\<close>

theorem tag_boundary:
  "purchase_of_tag ''0'' = None \<and> purchase_of_tag ''10001'' = None
   \<and> purchase_of_tag ''1'' = Some \<lparr>tag = ''1'', credits = 1\<rparr>
   \<and> purchase_of_tag ''10000'' = Some \<lparr>tag = ''10000'', credits = 10000\<rparr>
   \<and> purchase_of_tag ''$50'' = Some \<lparr>tag = ''$50'', credits = 50\<rparr>
   \<and> purchase_of_tag ''50'' = Some \<lparr>tag = ''50'', credits = 50\<rparr>
   \<and> (\<forall>t ds before after.
         purchaseMatch (trim t) = Some ds \<and> \<not> (1 \<le> parseInt ds \<and> parseInt ds \<le> 10000) \<longrightarrow>
           purchase_of_tag t = None
           \<and> purchaseTags (Some (before @ t # after))
               = purchaseTags (Some before) @ purchaseTags (Some after))
   \<and> (\<forall>ts p. p \<in> set (purchaseTags (Some ts)) \<longrightarrow> 1 \<le> credits p \<and> credits p \<le> 10000)"
proof -
  have skip: "purchaseTags (Some (before @ t # after))
               = purchaseTags (Some before) @ purchaseTags (Some after)"
    if "purchase_of_tag t = None" for t before after
    using that by (simp add: purchaseTags_def collect_purchase_tags_append)
  have range: "1 \<le> credits p \<and> credits p \<le> 10000" if "p \<in> set (collect_purchase_tags ts)" for ts p
    using that
  proof (induction ts)
    case Nil
    then show ?case by simp
  next
    case (Cons t ts)
    then show ?case
      by (cases "purchase_of_tag t") (auto dest: purchase_of_tag_range)
  qed
  show ?thesis
    using skip range purchase_of_tag_out_of_range
    by (simp add: purchase_of_tag_0 purchase_of_tag_10001 purchase_of_tag_1 purchase_of_tag_10000
          purchase_of_tag_dollar_50 purchase_of_tag_50 purchaseTags_def)
qed

lemma purchaseMatch_10001: "purchaseMatch (trim ''10001'') = Some ''10001''"
  by code_simp

lemma parseInt_10001: "parseInt ''10001'' = 10001"
  by code_simp

lemma purchaseTags_10_10001_5:
  "purchaseTags (Some [''$10'', ''10001'', ''5''])
     = [\<lparr>tag = ''$10'', credits = 10\<rparr>, \<lparr>tag = ''5'', credits = 5\<rparr>]"
  by code_simp

lemma purchaseTags_10: "purchaseTags (Some [''$10'']) = [\<lparr>tag = ''$10'', credits = 10\<rparr>]"
  by code_simp

lemma purchaseTags_5: "purchaseTags (Some [''5'']) = [\<lparr>tag = ''5'', credits = 5\<rparr>]"
  by code_simp

theorem tag_boundary_witness:
  "purchaseMatch (trim ''10001'') = Some ''10001''
   \<and> \<not> (1 \<le> parseInt ''10001'' \<and> parseInt ''10001'' \<le> 10000)
   \<and> purchase_of_tag ''10001'' = None
   \<and> purchaseTags (Some ([''$10''] @ ''10001'' # [''5'']))
        = purchaseTags (Some [''$10'']) @ purchaseTags (Some [''5''])
   \<and> \<lparr>tag = ''5'', credits = 5\<rparr> \<in> set (purchaseTags (Some [''$10'', ''10001'', ''5'']))
   \<and> 1 \<le> credits \<lparr>tag = ''5'', credits = 5\<rparr> \<and> credits \<lparr>tag = ''5'', credits = 5\<rparr> \<le> 10000"
  using tag_boundary
  by (simp add: purchaseMatch_10001 parseInt_10001 purchaseTags_10_10001_5 purchaseTags_10
        purchaseTags_5)

text \<open>White space around a tag is trimmed before it is matched and stored.\<close>

lemma purchase_of_tag_trims:
  "purchase_of_tag '' $50  '' = Some \<lparr>tag = ''$50'', credits = 50\<rparr>"
  "purchase_of_tag ''$ 50'' = None"
  by code_simp+

section \<open>The statements and the history\<close>

lemma update_member_credits_simps:
  "members (update_member_credits mid f s) = members s"
  "app_actions (update_member_credits mid f s) = app_actions s"
  "processed_purchase_tags (update_member_credits mid f s) = processed_purchase_tags s"
  "members_id_seq (update_member_credits mid f s) = members_id_seq s"
  "app_actions_id_seq (update_member_credits mid f s) = app_actions_id_seq s"
  "member_credits (update_member_credits mid f s) =
     (case member_credits s mid of None \<Rightarrow> member_credits s
      | Some OLD \<Rightarrow> (member_credits s)(mid \<mapsto> f OLD))"
  "credit_history (update_member_credits mid f s) =
     credit_history s @ (case member_credits s mid of None \<Rightarrow> []
                         | Some OLD \<Rightarrow> log_credit_change_UPDATE mid OLD (f OLD))"
  by (simp_all add: update_member_credits_def split: option.splits)

lemma member_credits_row_updates:
  "(r :: member_credits_row)\<lparr>credits_balance := b, last_refreshed_at := t\<rparr>
     = \<lparr>credits_balance = b, last_refreshed_at = t\<rparr>"
  by (cases r) simp

lemma insert_member_credits_simps:
  "members (insert_member_credits mid b now s) = members s"
  "app_actions (insert_member_credits mid b now s) = app_actions s"
  "processed_purchase_tags (insert_member_credits mid b now s) = processed_purchase_tags s"
  "members_id_seq (insert_member_credits mid b now s) = members_id_seq s"
  "app_actions_id_seq (insert_member_credits mid b now s) = app_actions_id_seq s"
  "member_credits (insert_member_credits mid b now s) =
     (member_credits s)(mid \<mapsto> \<lparr>credits_balance = b, last_refreshed_at = now\<rparr>)"
  "credit_history (insert_member_credits mid b now s) =
     credit_history s @
       (case member_credits s mid of
          None \<Rightarrow> log_credit_change_INSERT mid \<lparr>credits_balance = b, last_refreshed_at = now\<rparr>
        | Some OLD \<Rightarrow> log_credit_change_UPDATE mid OLD \<lparr>credits_balance = b, last_refreshed_at = now\<rparr>)"
  by (simp_all add: insert_member_credits_def Let_def member_credits_row_updates
        split: option.splits)

lemma insert_credit_history_simps:
  "members (insert_credit_history row s) = members s"
  "app_actions (insert_credit_history row s) = app_actions s"
  "processed_purchase_tags (insert_credit_history row s) = processed_purchase_tags s"
  "members_id_seq (insert_credit_history row s) = members_id_seq s"
  "app_actions_id_seq (insert_credit_history row s) = app_actions_id_seq s"
  "member_credits (insert_credit_history row s) = member_credits s"
  "credit_history (insert_credit_history row s) = credit_history s @ [row]"
  by (simp_all add: insert_credit_history_def)

lemma varchar_fits: "length v \<le> n \<Longrightarrow> varchar n v = Inr v"
  by (simp add: varchar_def)

lemma varchar_Inr_length: "varchar n v = Inr w \<Longrightarrow> length w \<le> n"
  by (auto simp: varchar_def split: if_splits)

lemma insert_processed_purchase_tags_Inr:
  assumes "insert_processed_purchase_tags mid tg n s = Inr s'"
  shows "members s' = members s" and "app_actions s' = app_actions s"
    and "member_credits s' = member_credits s" and "credit_history s' = credit_history s"
    and "\<exists>v. varchar 100 tg = Inr v \<and> processed_purchase_tags s' = processed_purchase_tags s @
           [\<lparr>ppt_member_id = mid, tag_value = v, credits_granted = n\<rparr>]"
  using assms by (auto simp: insert_processed_purchase_tags_def split: sum.splits)

lemma insert_processed_purchase_tags_fits:
  "length tg \<le> 100 \<Longrightarrow>
   insert_processed_purchase_tags mid tg n s =
     Inr (s\<lparr>processed_purchase_tags := processed_purchase_tags s @
               [\<lparr>ppt_member_id = mid, tag_value = tg, credits_granted = n\<rparr>]\<rparr>)"
  by (simp add: insert_processed_purchase_tags_def varchar_fits)

lemmas statement_simps =
  update_member_credits_simps insert_member_credits_simps insert_credit_history_simps

lemma of_type_append: "of_type ty (xs @ ys) = of_type ty xs @ of_type ty ys"
  by (simp add: of_type_def)

lemma of_type_Nil: "of_type ty [] = []"
  by (simp add: of_type_def)

lemma of_type_Cons:
  "of_type ty (r # rs) = (if change_type r = ty then r # of_type ty rs else of_type ty rs)"
  by (simp add: of_type_def)

lemma of_type_log_credit_change_UPDATE:
  "ty \<noteq> credit_addition \<Longrightarrow> ty \<noteq> credit_deduction \<Longrightarrow>
   of_type ty (log_credit_change_UPDATE mid OLD NEW) = []"
  by (auto simp: of_type_def log_credit_change_UPDATE_def)

lemma of_type_log_credit_change_INSERT:
  "of_type ty (log_credit_change_INSERT mid NEW) =
     (if ty = initial_grant then log_credit_change_INSERT mid NEW else [])"
  by (auto simp: of_type_def log_credit_change_INSERT_def)

lemma appended_history_append:
  "credit_history s' = credit_history s @ X \<Longrightarrow> appended_history s s' = X"
  by (simp add: appended_history_def)

lemma appended_history_same: "appended_history s s = []"
  by (simp add: appended_history_def)

section \<open>The settlement through the pool\<close>

lemma settlement_rows_Nil: "settlement_rows []"
  by (simp add: settlement_rows_def of_type_Nil)

lemma settlement_rows_append:
  "settlement_rows P \<Longrightarrow> settlement_rows Q \<Longrightarrow> settlement_rows (P @ Q)"
  by (simp add: settlement_rows_def of_type_append)

lemma settlement_rows_log_credit_change_UPDATE:
  "settlement_rows (log_credit_change_UPDATE mid OLD NEW)"
  by (simp add: settlement_rows_def of_type_log_credit_change_UPDATE)

lemma settles_refl: "settles s s"
  unfolding settles_def using settlement_rows_Nil by (intro conjI exI [of _ "[]"]) simp_all

lemma settles_trans:
  assumes "settles a b" and "settles b c"
  shows "settles a c"
proof -
  obtain P where P: "credit_history b = credit_history a @ P" "settlement_rows P"
    using assms(1) by (auto simp: settles_def)
  obtain Q where Q: "credit_history c = credit_history b @ Q" "settlement_rows Q"
    using assms(2) by (auto simp: settles_def)
  have "credit_history c = credit_history a @ (P @ Q)" "settlement_rows (P @ Q)"
    using P Q by (simp_all add: settlement_rows_append)
  then have "\<exists>R. credit_history c = credit_history a @ R \<and> settlement_rows R"
    by blast
  then show ?thesis
    using assms by (simp add: settles_def)
qed

lemma settles_update_balance:
  "settles s (update_member_credits mid (\<lambda>r. r\<lparr>credits_balance := nb\<rparr>) s)"
proof (cases "member_credits s mid")
  case None
  then have "update_member_credits mid (\<lambda>r. r\<lparr>credits_balance := nb\<rparr>) s = s"
    by (simp add: update_member_credits_def)
  then show ?thesis by (simp add: settles_refl)
next
  case (Some OLD)
  have "\<exists>P. credit_history (update_member_credits mid (\<lambda>r. r\<lparr>credits_balance := nb\<rparr>) s)
             = credit_history s @ P \<and> settlement_rows P"
    using Some settlement_rows_log_credit_change_UPDATE
    by (simp add: update_member_credits_simps)
  then show ?thesis
    using Some by (simp add: settles_def update_member_credits_simps)
qed

lemma settles_purchase_row:
  "settles s (insert_credit_history
     \<lparr>ch_member_id = mid, change_amount = n, change_type = purchase, balance_after = nb,
      reference_id = None, ch_notes = nt\<rparr> s)"
proof -
  have "settlement_rows [\<lparr>ch_member_id = mid, change_amount = n, change_type = purchase,
          balance_after = nb, reference_id = None, ch_notes = nt\<rparr>]"
    by (simp add: settlement_rows_def of_type_Cons of_type_Nil)
  then show ?thesis
    by (auto simp: settles_def insert_credit_history_simps)
qed

lemma settling_statements:
  "settling (\<lambda>s. Inr (update_member_credits mid (\<lambda>r. r\<lparr>credits_balance := nb\<rparr>) s))"
  "settling (insert_processed_purchase_tags mid tg n)"
  "settling (\<lambda>s. Inr (insert_credit_history
     \<lparr>ch_member_id = mid, change_amount = n, change_type = purchase, balance_after = nb,
      reference_id = None, ch_notes = nt\<rparr> s))"
  "settling (\<lambda>s. Inl err)"
proof -
  show "settling (\<lambda>s. Inr (update_member_credits mid (\<lambda>r. r\<lparr>credits_balance := nb\<rparr>) s))"
    using settles_update_balance by (auto simp: settling_def)
  show "settling (insert_processed_purchase_tags mid tg n)"
    unfolding settling_def
  proof (intro allI impI)
    fix s s' assume ins: "insert_processed_purchase_tags mid tg n s = Inr s'"
    have "\<exists>P. credit_history s' = credit_history s @ P \<and> settlement_rows P"
      using insert_processed_purchase_tags_Inr(4) [OF ins] settlement_rows_Nil
      by (intro exI [of _ "[]"]) simp
    then show "settles s s'"
      using insert_processed_purchase_tags_Inr(1,3) [OF ins] by (simp add: settles_def)
  qed
  show "settling (\<lambda>s. Inr (insert_credit_history
     \<lparr>ch_member_id = mid, change_amount = n, change_type = purchase, balance_after = nb,
      reference_id = None, ch_notes = nt\<rparr> s))"
    using settles_purchase_row by (auto simp: settling_def)
  show "settling (\<lambda>s. Inl err)"
    by (simp add: settling_def)
qed

lemma settling_settlement_statements:
  "list_all settling (settlement_statements mid nb ps)"
  unfolding settlement_statements_def
  by (induction ps) (simp_all add: settling_statements)

lemma settling_query_simps:
  "settling_query BEGIN" "settling_query COMMIT" "settling_query ROLLBACK"
  "settling_query (Statement f) = settling f"
  by (simp_all add: settling_query_def)

lemma settling_queries_failing:
  assumes "list_all settling_query qs"
  shows "list_all settling_query (failing fail qs)"
proof (cases fail)
  case None
  then show ?thesis using assms by (simp add: failing_def)
next
  case (Some k)
  have "list_all settling_query (qs[k := Statement (\<lambda>s. Inl statement_failed)])"
    using assms
    by (auto simp: list_all_iff settling_query_simps settling_statements
          dest!: set_update_subset_insert [THEN subsetD])
  then show ?thesis using Some assms by (simp add: failing_def)
qed

lemma settling_settlement_queries:
  "list_all settling_query (failing fail (map Statement (settlement_statements mid nb ps) @ [COMMIT]))"
proof (rule settling_queries_failing)
  have "list_all settling_query (map Statement (settlement_statements mid nb ps))"
    using settling_settlement_statements [of mid nb ps]
    by (simp add: list_all_iff settling_query_simps)
  then show "list_all settling_query (map Statement (settlement_statements mid nb ps) @ [COMMIT])"
    by (simp add: settling_query_simps)
qed

lemma settles_apply_statement: "settling f \<Longrightarrow> settles s (apply_statement f s)"
  by (auto simp: apply_statement_def settling_def settles_refl split: sum.splits)

lemma settles_foldl:
  "list_all settling qs \<Longrightarrow> settles s (foldl (\<lambda>s q. apply_statement q s) s qs)"
proof (induction qs arbitrary: s)
  case Nil
  then show ?case by (simp add: settles_refl)
next
  case (Cons q qs)
  have "settles s (apply_statement q s)"
    using Cons.prems by (simp add: settles_apply_statement)
  moreover have "settles (apply_statement q s)
                   (foldl (\<lambda>s q. apply_statement q s) (apply_statement q s) qs)"
    using Cons.prems by (intro Cons.IH) simp
  ultimately show ?case
    using settles_trans by simp
qed

lemma pool_inv_view:
  assumes "pool_inv s P"
  shows "settles s (view P c)"
proof (cases "transactions P c")
  case None
  then show ?thesis using assms by (simp add: view_def pool_inv_def)
next
  case (Some tx)
  show ?thesis
  proof (cases tx)
    case (Open qs)
    have "list_all settling qs"
      using assms Some Open by (simp add: pool_inv_def)
    then have "settles (visible P) (view P c)"
      using Some Open by (simp add: view_def settles_foldl)
    moreover have "settles s (visible P)"
      using assms by (simp add: pool_inv_def)
    ultimately show ?thesis by (rule settles_trans [rotated])
  next
    case Aborted
    then show ?thesis using assms Some by (simp add: view_def pool_inv_def)
  qed
qed

lemma pool_inv_query:
  assumes inv: "pool_inv s P" and q: "settling_query q"
  shows "pool_inv s (fst (pool_query c q P))"
proof (cases q)
  case BEGIN
  then show ?thesis
    using inv
    by (auto simp: pool_query_def pool_inv_def split: option.splits transaction.splits)
next
  case COMMIT
  then show ?thesis
    using inv pool_inv_view [OF inv, of c]
    by (auto simp: pool_query_def pool_inv_def split: option.splits transaction.splits)
next
  case ROLLBACK
  then show ?thesis
    using inv by (auto simp: pool_query_def pool_inv_def)
next
  case (Statement f)
  then have f: "settling f"
    using q by (simp add: settling_query_simps)
  show ?thesis
  proof (cases "transactions P c")
    case None
    show ?thesis
    proof (cases "f (visible P)")
      case (Inl err)
      then show ?thesis using inv Statement None by (simp add: pool_query_def)
    next
      case (Inr s')
      have "settles (visible P) s'"
        using f Inr by (simp add: settling_def)
      then have "settles s s'"
        using inv settles_trans by (auto simp: pool_inv_def)
      then show ?thesis
        using inv Statement None Inr by (simp add: pool_query_def pool_inv_def)
    qed
  next
    case (Some tx)
    then show ?thesis
      using inv Statement f
      by (cases tx; cases "f (view P c)")
         (auto simp: pool_query_def pool_inv_def)
  qed
qed

lemma pool_inv_run_queries:
  assumes "pool_inv s P" and "list_all settling_query qs"
  shows "pool_inv s (fst (run_queries conn k qs P))"
  using assms
proof (induction qs arbitrary: k P)
  case Nil
  then show ?case by simp
next
  case (Cons q qs)
  obtain P' err where step: "pool_query (conn k) q P = (P', err)"
    by (cases "pool_query (conn k) q P")
  have inv': "pool_inv s P'"
    using pool_inv_query [OF Cons.prems(1), of q "conn k"] Cons.prems(2) step by simp
  show ?case
  proof (cases err)
    case None
    then show ?thesis
      using step Cons.IH [OF inv'] Cons.prems(2) by simp
  next
    case (Some e)
    then show ?thesis using step inv' by simp
  qed
qed

lemma pool_inv_start: "pool_inv s \<lparr>visible = s, transactions = (\<lambda>c. None)\<rparr>"
  by (simp add: pool_inv_def settles_refl)

text \<open>
  Whatever connections serve the settlement and whatever fails in it, the database after
  step 3 differs from the one before it by rows of the settlement only.
\<close>

lemma process_purchase_tags_nothing:
  "purchaseTags tgs = [] \<Longrightarrow> process_purchase_tags conn fail tgs mid (s, cr) = (s, cr, [])"
  by (simp add: process_purchase_tags_def)

lemma process_purchase_tags_settles:
  "settles s (fst (process_purchase_tags conn fail tgs mid (s, cr)))"
proof (cases "purchaseTags tgs \<noteq> [] \<and> 0 < sum_list (map credits (purchaseTags tgs))")
  case False
  then show ?thesis by (auto simp: process_purchase_tags_def Let_def settles_refl)
next
  case True
  let ?P0 = "\<lparr>visible = s, transactions = (\<lambda>c. None)\<rparr>"
  obtain P where started: "pool_query (conn 0) BEGIN ?P0 = (P, None)"
    by (simp add: pool_query_def)
  have invP: "pool_inv s P"
    using pool_inv_query [OF pool_inv_start, of BEGIN s "conn 0"] started
    by (simp add: settling_query_simps)
  show ?thesis
  proof (cases cr)
    case None
    have "pool_inv s (fst (pool_query (conn 1) ROLLBACK P))"
      using invP by (rule pool_inv_query) (simp add: settling_query_simps)
    then show ?thesis
      using True None started by (simp add: process_purchase_tags_def Let_def pool_inv_def)
  next
    case (Some r)
    let ?qs = "failing fail (map Statement (settlement_statements mid
                 (credits_balance r + sum_list (map credits (purchaseTags tgs))) (purchaseTags tgs))
               @ [COMMIT])"
    obtain P' k err where run: "run_queries conn 1 ?qs P = (P', k, err)"
      by (cases "run_queries conn 1 ?qs P")
    have "pool_inv s (fst (run_queries conn 1 ?qs P))"
      by (rule pool_inv_run_queries [OF invP settling_settlement_queries])
    then have invP': "pool_inv s P'"
      unfolding run by simp
    have "pool_inv s (fst (pool_query (conn k) ROLLBACK P'))"
      using invP' by (rule pool_inv_query) (simp add: settling_query_simps)
    then show ?thesis
      using True Some started run invP'
      by (cases err) (simp_all add: process_purchase_tags_def Let_def pool_inv_def)
  qed
qed

lemma process_purchase_tags_history:
  "\<exists>P. credit_history (fst (process_purchase_tags conn fail tgs mid (s, cr))) = credit_history s @ P
       \<and> settlement_rows P"
  using process_purchase_tags_settles [of s conn fail tgs mid cr] by (simp add: settles_def)

lemma process_purchase_tags_members:
  "members (fst (process_purchase_tags conn fail tgs mid (s, cr))) = members s"
  using process_purchase_tags_settles [of s conn fail tgs mid cr] by (simp add: settles_def)


lemma purchaseTags_credits_pos:
  "p \<in> set (purchaseTags tgs) \<Longrightarrow> 1 \<le> credits p"
proof (cases tgs)
  case None
  assume "p \<in> set (purchaseTags tgs)"
  with None show ?thesis by (simp add: purchaseTags_def)
next
  case (Some ts)
  assume "p \<in> set (purchaseTags tgs)"
  with Some have "p \<in> set (collect_purchase_tags ts)" by (simp add: purchaseTags_def)
  then show ?thesis
  proof (induction ts)
    case Nil
    then show ?case by simp
  next
    case (Cons t ts)
    then show ?case by (cases "purchase_of_tag t") (auto dest: purchase_of_tag_range)
  qed
qed

lemma sum_list_credits_pos:
  "ps \<noteq> [] \<Longrightarrow> (\<And>p. p \<in> set ps \<Longrightarrow> 1 \<le> credits p) \<Longrightarrow> 0 < sum_list (map credits ps)"
proof (induction ps)
  case Nil
  then show ?case by simp
next
  case (Cons p ps)
  have "1 \<le> credits p" using Cons.prems(2) by simp
  moreover have "0 \<le> sum_list (map credits ps)"
    using Cons.prems(2) by (intro sum_list_nonneg) fastforce
  ultimately show ?case by simp
qed

lemma purchaseTags_total_pos:
  "purchaseTags tgs \<noteq> [] \<Longrightarrow> 0 < sum_list (map credits (purchaseTags tgs))"
  by (rule sum_list_credits_pos) (auto dest: purchaseTags_credits_pos)

section \<open>Steps 1 and 2\<close>

lemma upsert_member_existing:
  assumes "varchar 255 em0 = Inr em" and "varchar 255 nm0 = Inr nm"
    and "\<not> list_ex (\<lambda>r. email r = em \<and> circle_member_id r \<noteq> cid) (members s)"
    and "find (\<lambda>r. circle_member_id r = cid) (members s) = Some m"
  shows "upsert_member cid em0 nm0 paid tgs now s =
     Inr (s\<lparr>members := map (\<lambda>r. if circle_member_id r = cid
                                  then r\<lparr>email := em, name := nm, is_paid := paid,
                                         tags := tgs, last_seen_at := now\<rparr>
                                  else r) (members s)\<rparr>,
          m_id m, first_seen_at m)"
  using assms by (simp add: upsert_member_def)

lemma upsert_member_new:
  assumes "varchar 255 em0 = Inr em" and "varchar 255 nm0 = Inr nm"
    and "\<not> list_ex (\<lambda>r. email r = em \<and> circle_member_id r \<noteq> cid) (members s)"
    and "find (\<lambda>r. circle_member_id r = cid) (members s) = None"
  shows "upsert_member cid em0 nm0 paid tgs now s =
     Inr (s\<lparr>members := members s @
              [\<lparr>m_id = members_id_seq s + 1, circle_member_id = cid, email = em, name = nm,
                is_paid = paid, tags = tgs, first_seen_at = now, last_seen_at = now\<rparr>],
            members_id_seq := members_id_seq s + 1\<rparr>,
          members_id_seq s + 1, now)"
  using assms by (simp add: upsert_member_def Let_def)

lemma upsert_member_cases:
  "(\<exists>err. upsert_member cid em0 nm0 paid tgs now s = Inl err)
   \<or> (\<exists>em nm. varchar 255 em0 = Inr em \<and> varchar 255 nm0 = Inr nm
         \<and> \<not> list_ex (\<lambda>r. email r = em \<and> circle_member_id r \<noteq> cid) (members s))"
  by (cases "varchar 255 em0"; cases "varchar 255 nm0") (auto simp: upsert_member_def)

lemma upsert_member_keeps:
  assumes "upsert_member cid em nm paid tgs now s = Inr (s1, mid, fs)"
  shows "member_credits s1 = member_credits s" and "credit_history s1 = credit_history s"
    and "app_actions s1 = app_actions s"
    and "processed_purchase_tags s1 = processed_purchase_tags s"
  using assms
  by (auto simp: upsert_member_def Let_def split: if_splits option.splits sum.splits)

lemma grant_initial_history:
  "credit_history (fst (grant_initial e now paid mid s)) =
     credit_history s @
       (case member_credits s mid of
          None \<Rightarrow> log_credit_change_INSERT mid
                    \<lparr>credits_balance = (if paid then or_default (INITIAL_CREDITS_PAID e) 100
                                         else or_default (INITIAL_CREDITS_FREE e) 10),
                     last_refreshed_at = now\<rparr>
        | Some OLD \<Rightarrow> log_credit_change_UPDATE mid OLD
                    \<lparr>credits_balance = (if paid then or_default (INITIAL_CREDITS_PAID e) 100
                                         else or_default (INITIAL_CREDITS_FREE e) 10),
                     last_refreshed_at = now\<rparr>) @
       [\<lparr>ch_member_id = mid,
         change_amount = (if paid then or_default (INITIAL_CREDITS_PAID e) 100
                          else or_default (INITIAL_CREDITS_FREE e) 10),
         change_type = initial_grant,
         balance_after = (if paid then or_default (INITIAL_CREDITS_PAID e) 100
                          else or_default (INITIAL_CREDITS_FREE e) 10),
         reference_id = None,
         ch_notes = ''Initial credit grant: '' @ (if paid then ''paid'' else ''free'') @ '' member''\<rparr>]"
  by (simp add: grant_initial_def Let_def statement_simps)

lemma upgrade_step_history:
  assumes "member_credits s mid = Some cr"
  shows "credit_history (fst (upgrade_step e prev paid tc mid cr s)) =
     credit_history s @
       (if \<not> prev \<and> paid
        then log_credit_change_UPDATE mid cr (cr\<lparr>credits_balance := credits_balance cr + upgradeBonus e\<rparr>) @
             [\<lparr>ch_member_id = mid, change_amount = upgradeBonus e, change_type = upgrade_bonus,
               balance_after = credits_balance cr + upgradeBonus e, reference_id = None,
               ch_notes = ''Credit bonus for upgrading to paid membership''\<rparr>]
        else [])"
  using assms by (auto simp: upgrade_step_def Let_def statement_simps)

lemma upgrade_step_credits:
  assumes "member_credits s mid = Some cr"
  shows "member_credits (fst (upgrade_step e prev paid tc mid cr s)) =
           (member_credits s)(mid \<mapsto>
              (if \<not> prev \<and> paid then cr\<lparr>credits_balance := credits_balance cr + upgradeBonus e\<rparr>
               else cr))"
    and "snd (upgrade_step e prev paid tc mid cr s) =
           Some (if \<not> prev \<and> paid then cr\<lparr>credits_balance := credits_balance cr + upgradeBonus e\<rparr>
                 else cr)"
  using assms by (auto simp: upgrade_step_def Let_def statement_simps)

lemma refresh_step_not_due:
  "\<not> last_refreshed_at cr < oneMonthAgo e now \<Longrightarrow> refresh_step e now paid mid cr sc = sc"
  by (cases sc) (simp add: refresh_step_def)

lemma refresh_step_due_history:
  assumes "last_refreshed_at cr < oneMonthAgo e now" and "member_credits s mid = Some r"
  shows "credit_history (fst (refresh_step e now paid mid cr (s, Some r))) =
     credit_history s @
       log_credit_change_UPDATE mid r
         (r\<lparr>credits_balance := (if credits_balance r = 0 then credits_balance cr
                                 else credits_balance r) + monthlyCredits e paid,
            last_refreshed_at := now\<rparr>) @
       [\<lparr>ch_member_id = mid, change_amount = monthlyCredits e paid,
         change_type = monthly_refresh,
         balance_after = (if credits_balance r = 0 then credits_balance cr
                          else credits_balance r) + monthlyCredits e paid,
         reference_id = None,
         ch_notes = ''Monthly credit refresh: '' @ (if paid then ''paid'' else ''free'') @ '' member''\<rparr>]"
  using assms by (simp add: refresh_step_def Let_def statement_simps)

lemma refresh_step_due_credits:
  assumes "last_refreshed_at cr < oneMonthAgo e now" and "member_credits s mid = Some r"
  shows "member_credits (fst (refresh_step e now paid mid cr (s, Some r))) =
           (member_credits s)(mid \<mapsto>
              r\<lparr>credits_balance := (if credits_balance r = 0 then credits_balance cr
                                      else credits_balance r) + monthlyCredits e paid,
                last_refreshed_at := now\<rparr>)"
    and "snd (refresh_step e now paid mid cr (s, Some r)) =
           Some (r\<lparr>credits_balance := (if credits_balance r = 0 then credits_balance cr
                                          else credits_balance r) + monthlyCredits e paid,
                    last_refreshed_at := now\<rparr>)"
  using assms by (simp_all add: refresh_step_def Let_def statement_simps)

lemma auth_db_integration_fst:
  "fst (auth_db_integration e now conn fail md s) =
     (case auth_steps_1_2 e now md s of
        (s', None) \<Rightarrow> s'
      | (s2, Some (creditsResult, dbMemberId, isNewUser)) \<Rightarrow>
          fst (process_purchase_tags conn fail (md_tags md) dbMemberId (s2, creditsResult)))"
  by (simp add: auth_db_integration_def split: prod.splits option.splits)

text \<open>
  The history after the whole integration: what steps 1 and 2 left, then rows of the
  settlement, which are purchases and rows of the trigger.
\<close>

lemma auth_db_integration_history:
  "\<exists>P. credit_history (fst (auth_db_integration e now conn fail md s))
         = credit_history (fst (auth_steps_1_2 e now md s)) @ P
       \<and> settlement_rows P"
proof (cases "auth_steps_1_2 e now md s")
  case (Pair s2 x)
  show ?thesis
  proof (cases x)
    case None
    with Pair have "credit_history (fst (auth_db_integration e now conn fail md s))
       = credit_history (fst (auth_steps_1_2 e now md s)) @ []"
      by (simp add: auth_db_integration_fst)
    then show ?thesis using settlement_rows_Nil by blast
  next
    case (Some y)
    obtain cr mid nu where y: "y = (cr, mid, nu)" by (cases y)
    obtain P where P: "credit_history (fst (process_purchase_tags conn fail (md_tags md) mid (s2, cr)))
                         = credit_history s2 @ P" "settlement_rows P"
      using process_purchase_tags_history [of conn fail "md_tags md" mid s2 cr] by blast
    have "credit_history (fst (auth_db_integration e now conn fail md s))
       = credit_history (fst (auth_steps_1_2 e now md s)) @ P"
      using Pair Some y P(1) by (simp add: auth_db_integration_fst)
    then show ?thesis using P(2) by blast
  qed
qed

lemma credit_processing_returning:
  assumes "member_credits s mid = Some cr"
  shows "credit_processing e now False prev paid tc mid s
           = refresh_step e now paid mid cr (upgrade_step e prev paid tc mid cr s)"
  using assms by (simp add: credit_processing_def)

lemma credit_processing_grant:
  assumes "member_credits s mid = None \<or> isNew"
  shows "credit_processing e now isNew prev paid tc mid s = grant_initial e now paid mid s"
  using assms by (auto simp: credit_processing_def split: option.splits)

lemma find_map_same_key:
  assumes "\<And>r. P (f r) = P r"
  shows "find P (map f xs) = map_option f (find P xs)"
  using assms by (induction xs) simp_all

lemma auth_steps_1_2_existing:
  assumes "varchar 255 (md_email md) = Inr em" and "varchar 255 (md_name md) = Inr nm"
    and "\<not> list_ex (\<lambda>r. email r = em \<and> circle_member_id r \<noteq> md_id md) (members s)"
    and "find (\<lambda>r. circle_member_id r = md_id md) (members s) = Some m"
  shows "auth_steps_1_2 e now md s =
     (case credit_processing e now (now - first_seen_at m < 30000) (is_paid m)
             (currentIsPaid e md) (tags m \<noteq> (case md_tags md of None \<Rightarrow> [] | Some ts \<Rightarrow> ts))
             (m_id m)
             (s\<lparr>members := map (\<lambda>r. if circle_member_id r = md_id md
                                      then r\<lparr>email := em, name := nm,
                                             is_paid := currentIsPaid e md,
                                             tags := (case md_tags md of None \<Rightarrow> [] | Some ts \<Rightarrow> ts),
                                             last_seen_at := now\<rparr>
                                      else r) (members s)\<rparr>) of
        (s2, creditsResult) \<Rightarrow> (s2, Some (creditsResult, m_id m, now - first_seen_at m < 30000)))"
  using assms by (simp add: auth_steps_1_2_def Let_def upsert_member_existing [OF assms])

lemma auth_steps_1_2_new:
  assumes "varchar 255 (md_email md) = Inr em" and "varchar 255 (md_name md) = Inr nm"
    and "\<not> list_ex (\<lambda>r. email r = em \<and> circle_member_id r \<noteq> md_id md) (members s)"
    and "find (\<lambda>r. circle_member_id r = md_id md) (members s) = None"
  shows "auth_steps_1_2 e now md s =
     (case grant_initial e now (currentIsPaid e md) (members_id_seq s + 1)
             (s\<lparr>members := members s @
                  [\<lparr>m_id = members_id_seq s + 1, circle_member_id = md_id md, email = em,
                    name = nm, is_paid = currentIsPaid e md,
                    tags = (case md_tags md of None \<Rightarrow> [] | Some ts \<Rightarrow> ts),
                    first_seen_at = now, last_seen_at = now\<rparr>],
                members_id_seq := members_id_seq s + 1\<rparr>) of
        (s2, creditsResult) \<Rightarrow> (s2, Some (creditsResult, members_id_seq s + 1, True)))"
  using assms
  by (simp add: auth_steps_1_2_def Let_def upsert_member_new [OF assms] credit_processing_grant)

lemma auth_steps_1_2_failed:
  assumes "upsert_member (md_id md) (md_email md) (md_name md) (currentIsPaid e md)
             (case md_tags md of None \<Rightarrow> [] | Some ts \<Rightarrow> ts) now s = Inl err"
  shows "auth_steps_1_2 e now md s = (s, None)"
  using assms by (simp add: auth_steps_1_2_def Let_def)

lemma purchaseTags_empty: "purchaseTags (Some []) = []"
  by (simp add: purchaseTags_def)

lemma varchar_alice:
  "varchar 255 ''alice@example.com'' = Inr ''alice@example.com''"
  "varchar 255 ''Alice'' = Inr ''Alice''"
  by (simp_all add: varchar_def)

lemmas auth_defs =
  auth_db_integration_def auth_steps_1_2_def upsert_member_def Let_def
  credit_processing_def grant_initial_def upgrade_step_def refresh_step_def upgradeBonus_def
  monthlyCredits_def process_purchase_tags_def
  insert_member_credits_def update_member_credits_def insert_credit_history_def
  log_credit_change_INSERT_def log_credit_change_UPDATE_def currentIsPaid_def or_default_def
  varchar_alice

lemma default_env_simps:
  "INITIAL_CREDITS_PAID default_env = None" "INITIAL_CREDITS_FREE default_env = None"
  "MONTHLY_CREDITS_PAID default_env = None" "MONTHLY_CREDITS_FREE default_env = None"
  "PAID_MEMBER_TAGS default_env = [''paid'', ''premium'', ''subscriber'', ''member'', ''vip'', ''pro'']"
  "DATABASE_URL default_env"
  by (simp_all add: default_env_def)

lemma trial_env_simps:
  "INITIAL_CREDITS_PAID trial_env = Some 20" "INITIAL_CREDITS_FREE trial_env = Some 50"
  "MONTHLY_CREDITS_PAID trial_env = Some 40" "MONTHLY_CREDITS_FREE trial_env = Some 25"
  "PAID_MEMBER_TAGS trial_env = [''gold'']" "DATABASE_URL trial_env"
  by (simp_all add: trial_env_def)

lemma eastern_env_simps:
  "INITIAL_CREDITS_PAID eastern_env = None" "INITIAL_CREDITS_FREE eastern_env = None"
  "MONTHLY_CREDITS_PAID eastern_env = Some 250" "MONTHLY_CREDITS_FREE eastern_env = Some 25"
  "PAID_MEMBER_TAGS eastern_env = [''paid'', ''premium'', ''subscriber'', ''member'', ''vip'', ''pro'']"
  "DATABASE_URL eastern_env"
  by (simp_all add: eastern_env_def)

lemmas example_defs =
  default_env_simps alice_free_def alice_paid_def alice_row_def alice_row_seen_def
  alice_row_paid_def db_alice_def db_alice_seen_def db_alice_refreshed_def db_alice_upgraded_def
  trigger_grant_10_def app_grant_10_def trigger_addition_90_def upgrade_bonus_90_def
  trigger_addition_10_def monthly_refresh_10_def

lemma first_authentication:
  "auth_db_integration default_env t conn fail alice_free empty_db =
     (db_alice t, \<lparr>am_credits_balance = 10, am_is_new_user = True,
                    am_processed_purchase_tags = [], am_db_error = False\<rparr>)"
  by (simp add: auth_defs example_defs purchaseTags_empty empty_db_def)

lemma empty_db_simps:
  "members empty_db = []" "member_credits empty_db = Map.empty" "app_actions empty_db = []"
  "credit_history empty_db = []" "processed_purchase_tags empty_db = []"
  by (simp_all add: empty_db_def)

text \<open>
  Steps 1 and 2 for a returning member: the member has a row and a credit account, and the
  row was first seen at least 30 seconds ago.
\<close>

lemma upgrade_step_other:
  "processed_purchase_tags (fst (upgrade_step e prev paid tc mid cr s)) = processed_purchase_tags s"
  "app_actions (fst (upgrade_step e prev paid tc mid cr s)) = app_actions s"
  "members (fst (upgrade_step e prev paid tc mid cr s)) = members s"
  by (simp_all add: upgrade_step_def Let_def statement_simps)

lemma refresh_step_other:
  "processed_purchase_tags (fst (refresh_step e now paid mid cr (s, x))) = processed_purchase_tags s"
  "app_actions (fst (refresh_step e now paid mid cr (s, x))) = app_actions s"
  "members (fst (refresh_step e now paid mid cr (s, x))) = members s"
  by (simp_all add: refresh_step_def Let_def statement_simps)

lemma auth_steps_1_2_returning:
  fixes e now md s m cr em nm
  defines "paid \<equiv> currentIsPaid e md"
  defines "cr_u \<equiv> (if \<not> is_paid m \<and> paid
                     then cr\<lparr>credits_balance := credits_balance cr + upgradeBonus e\<rparr> else cr)"
  defines "U \<equiv> (if \<not> is_paid m \<and> paid
                  then log_credit_change_UPDATE (m_id m) cr
                         (cr\<lparr>credits_balance := credits_balance cr + upgradeBonus e\<rparr>) @
                       [\<lparr>ch_member_id = m_id m, change_amount = upgradeBonus e,
                         change_type = upgrade_bonus,
                         balance_after = credits_balance cr + upgradeBonus e, reference_id = None,
                         ch_notes = ''Credit bonus for upgrading to paid membership''\<rparr>]
                  else [])"
  defines "base \<equiv> (if credits_balance cr_u = 0 then credits_balance cr else credits_balance cr_u)"
  defines "cr_r \<equiv> (if last_refreshed_at cr < oneMonthAgo e now
                     then cr_u\<lparr>credits_balance := base + monthlyCredits e paid,
                              last_refreshed_at := now\<rparr>
                     else cr_u)"
  defines "R \<equiv> (if last_refreshed_at cr < oneMonthAgo e now
                  then log_credit_change_UPDATE (m_id m) cr_u
                         (cr_u\<lparr>credits_balance := base + monthlyCredits e paid,
                               last_refreshed_at := now\<rparr>) @
                       [\<lparr>ch_member_id = m_id m, change_amount = monthlyCredits e paid,
                         change_type = monthly_refresh,
                         balance_after = base + monthlyCredits e paid, reference_id = None,
                         ch_notes = ''Monthly credit refresh: '' @
                                    (if paid then ''paid'' else ''free'') @ '' member''\<rparr>]
                  else [])"
  assumes email: "varchar 255 (md_email md) = Inr em"
    and name: "varchar 255 (md_name md) = Inr nm"
    and no_collision:
      "\<not> list_ex (\<lambda>r. email r = em \<and> circle_member_id r \<noteq> md_id md) (members s)"
    and existing: "find (\<lambda>r. circle_member_id r = md_id md) (members s) = Some m"
    and account: "member_credits s (m_id m) = Some cr"
    and not_new: "\<not> now - first_seen_at m < 30000"
  shows "snd (auth_steps_1_2 e now md s) = Some (Some cr_r, m_id m, False)"
    and "member_credits (fst (auth_steps_1_2 e now md s)) = (member_credits s)(m_id m \<mapsto> cr_r)"
    and "credit_history (fst (auth_steps_1_2 e now md s)) = credit_history s @ U @ R"
    and "processed_purchase_tags (fst (auth_steps_1_2 e now md s)) = processed_purchase_tags s"
    and "app_actions (fst (auth_steps_1_2 e now md s)) = app_actions s"
proof -
  let ?tc = "tags m \<noteq> (case md_tags md of None \<Rightarrow> [] | Some ts \<Rightarrow> ts)"
  let ?s1 = "s\<lparr>members := map (\<lambda>r. if circle_member_id r = md_id md
                                   then r\<lparr>email := em, name := nm,
                                          is_paid := currentIsPaid e md,
                                          tags := (case md_tags md of None \<Rightarrow> [] | Some ts \<Rightarrow> ts),
                                          last_seen_at := now\<rparr>
                                   else r) (members s)\<rparr>"
  let ?up = "upgrade_step e (is_paid m) paid ?tc (m_id m) cr ?s1"
  have acc1: "member_credits ?s1 (m_id m) = Some cr"
    using account by simp
  have steps: "auth_steps_1_2 e now md s =
      (case refresh_step e now paid (m_id m) cr ?up of
         (s2, creditsResult) \<Rightarrow> (s2, Some (creditsResult, m_id m, False)))"
    using not_new
    by (simp add: auth_steps_1_2_existing [OF email name no_collision existing]
          credit_processing_returning [OF acc1] paid_def)
  have up_snd: "snd ?up = Some cr_u"
    unfolding cr_u_def by (rule upgrade_step_credits(2) [OF acc1])
  have up_credits: "member_credits (fst ?up) = (member_credits s)(m_id m \<mapsto> cr_u)"
    unfolding cr_u_def upgrade_step_credits(1) [OF acc1] by simp
  have up_history: "credit_history (fst ?up) = credit_history s @ U"
    unfolding U_def upgrade_step_history [OF acc1] by simp
  have up_other: "processed_purchase_tags (fst ?up) = processed_purchase_tags s"
      "app_actions (fst ?up) = app_actions s"
    by (simp_all add: upgrade_step_other)
  have up: "?up = (fst ?up, Some cr_u)"
    by (simp add: prod_eq_iff up_snd)
  have acc_u: "member_credits (fst ?up) (m_id m) = Some cr_u"
    by (simp add: up_credits)
  have main: "snd (auth_steps_1_2 e now md s) = Some (Some cr_r, m_id m, False)
        \<and> member_credits (fst (auth_steps_1_2 e now md s)) = (member_credits s)(m_id m \<mapsto> cr_r)
        \<and> credit_history (fst (auth_steps_1_2 e now md s)) = credit_history s @ U @ R
        \<and> processed_purchase_tags (fst (auth_steps_1_2 e now md s)) = processed_purchase_tags s
        \<and> app_actions (fst (auth_steps_1_2 e now md s)) = app_actions s"
  proof (cases "last_refreshed_at cr < oneMonthAgo e now")
    case True
    have r: "refresh_step e now paid (m_id m) cr ?up
               = refresh_step e now paid (m_id m) cr (fst ?up, Some cr_u)"
      by (subst up) (rule refl)
    show ?thesis
      unfolding steps r
      by (simp add: split_beta True refresh_step_due_history [OF True acc_u]
            refresh_step_due_credits [OF True acc_u] refresh_step_other
            up_credits up_history up_other cr_r_def R_def base_def)
  next
    case False
    show ?thesis
      unfolding steps refresh_step_not_due [OF False]
      by (simp add: split_beta False up_snd up_credits up_history up_other cr_r_def R_def)
  qed
  show "snd (auth_steps_1_2 e now md s) = Some (Some cr_r, m_id m, False)"
    and "member_credits (fst (auth_steps_1_2 e now md s)) = (member_credits s)(m_id m \<mapsto> cr_r)"
    and "credit_history (fst (auth_steps_1_2 e now md s)) = credit_history s @ U @ R"
    and "processed_purchase_tags (fst (auth_steps_1_2 e now md s)) = processed_purchase_tags s"
    and "app_actions (fst (auth_steps_1_2 e now md s)) = app_actions s"
    using main by blast+
qed

lemma grant_initial_members: "members (fst (grant_initial e now paid mid s)) = members s"
  by (simp add: grant_initial_def Let_def statement_simps)

lemma credit_processing_members:
  "members (fst (credit_processing e now isNew prev paid tc mid s)) = members s"
proof (cases "member_credits s mid")
  case None
  then show ?thesis by (simp add: credit_processing_def grant_initial_members)
next
  case (Some cr)
  show ?thesis
  proof (cases isNew)
    case True
    then show ?thesis using Some by (simp add: credit_processing_def grant_initial_members)
  next
    case False
    obtain s_u x where up: "upgrade_step e prev paid tc mid cr s = (s_u, x)"
      by (cases "upgrade_step e prev paid tc mid cr s")
    have "members s_u = members s"
      using upgrade_step_other(3) [of e prev paid tc mid cr s] up by simp
    then show ?thesis
      using Some False up by (simp add: credit_processing_def refresh_step_other)
  qed
qed

lemma auth_db_integration_members:
  "members (fst (auth_db_integration e now conn fail md s)) = members (fst (auth_steps_1_2 e now md s))"
  by (cases "auth_steps_1_2 e now md s")
     (auto simp: auth_db_integration_fst process_purchase_tags_members split: option.splits)

lemma auth_steps_1_2_members_existing:
  assumes "varchar 255 (md_email md) = Inr em" and "varchar 255 (md_name md) = Inr nm"
    and "\<not> list_ex (\<lambda>r. email r = em \<and> circle_member_id r \<noteq> md_id md) (members s)"
    and "find (\<lambda>r. circle_member_id r = md_id md) (members s) = Some m"
  shows "members (fst (auth_steps_1_2 e now md s)) =
     map (\<lambda>r. if circle_member_id r = md_id md
               then r\<lparr>email := em, name := nm, is_paid := currentIsPaid e md,
                      tags := (case md_tags md of None \<Rightarrow> [] | Some ts \<Rightarrow> ts),
                      last_seen_at := now\<rparr>
               else r) (members s)"
  unfolding auth_steps_1_2_existing [OF assms]
  by (simp add: split_beta credit_processing_members)

lemma find_after_upsert:
  assumes "find (\<lambda>r. circle_member_id r = cid) ms = Some m"
  shows "find (\<lambda>r. circle_member_id r = cid)
           (map (\<lambda>r. if circle_member_id r = cid
                     then r\<lparr>email := em, name := nm, is_paid := paid, tags := tgs,
                            last_seen_at := now\<rparr>
                     else r) ms)
         = Some (m\<lparr>email := em, name := nm, is_paid := paid, tags := tgs,
                   last_seen_at := now\<rparr>)"
  using assms by (induction ms) (auto split: if_splits)

text \<open>Steps 1 and 2 when the initial grant runs.\<close>

lemma auth_steps_1_2_grant_history:
  assumes "varchar 255 (md_email md) = Inr em" and "varchar 255 (md_name md) = Inr nm"
    and "\<not> list_ex (\<lambda>r. email r = em \<and> circle_member_id r \<noteq> md_id md) (members s)"
    and "find (\<lambda>r. circle_member_id r = md_id md) (members s) = Some m"
    and "member_credits s (m_id m) = None \<or> now - first_seen_at m < 30000"
  shows "\<exists>T. credit_history (fst (auth_steps_1_2 e now md s)) =
            credit_history s @ T @
              [\<lparr>ch_member_id = m_id m,
                change_amount = (if currentIsPaid e md then or_default (INITIAL_CREDITS_PAID e) 100
                                 else or_default (INITIAL_CREDITS_FREE e) 10),
                change_type = initial_grant,
                balance_after = (if currentIsPaid e md then or_default (INITIAL_CREDITS_PAID e) 100
                                 else or_default (INITIAL_CREDITS_FREE e) 10),
                reference_id = None,
                ch_notes = ''Initial credit grant: '' @
                           (if currentIsPaid e md then ''paid'' else ''free'') @ '' member''\<rparr>]
          \<and> of_type upgrade_bonus T = [] \<and> of_type monthly_refresh T = []
          \<and> of_type initial_grant T =
              (case member_credits s (m_id m) of
                 None \<Rightarrow> log_credit_change_INSERT (m_id m)
                    \<lparr>credits_balance = (if currentIsPaid e md
                                         then or_default (INITIAL_CREDITS_PAID e) 100
                                         else or_default (INITIAL_CREDITS_FREE e) 10),
                     last_refreshed_at = now\<rparr>
               | Some OLD \<Rightarrow> [])"
proof -
  let ?s1 = "s\<lparr>members := map (\<lambda>r. if circle_member_id r = md_id md
                                   then r\<lparr>email := em, name := nm,
                                          is_paid := currentIsPaid e md,
                                          tags := (case md_tags md of None \<Rightarrow> [] | Some ts \<Rightarrow> ts),
                                          last_seen_at := now\<rparr>
                                   else r) (members s)\<rparr>"
  have g: "member_credits ?s1 (m_id m) = None \<or> now - first_seen_at m < 30000"
    using assms(5) by simp
  have "credit_history (fst (auth_steps_1_2 e now md s)) =
          credit_history (fst (grant_initial e now (currentIsPaid e md) (m_id m) ?s1))"
    unfolding auth_steps_1_2_existing [OF assms(1-4)] credit_processing_grant [OF g]
    by (simp add: split_beta)
  then show ?thesis
    unfolding grant_initial_history
    by (auto simp: of_type_log_credit_change_UPDATE of_type_log_credit_change_INSERT
          split: option.splits)
qed

lemma no_upgrade_bonus_without_transition:
  assumes existing: "find (\<lambda>r. circle_member_id r = md_id md) (members s) = Some m"
    and unchanged: "is_paid m \<or> \<not> currentIsPaid e md"
  shows "of_type upgrade_bonus
           (appended_history s (fst (auth_db_integration e now conn fail md s))) = []"
proof -
  obtain P where P: "credit_history (fst (auth_db_integration e now conn fail md s))
                       = credit_history (fst (auth_steps_1_2 e now md s)) @ P"
    and rows: "settlement_rows P"
    using auth_db_integration_history [of e now conn fail md s] by blast
  have "\<exists>X. credit_history (fst (auth_steps_1_2 e now md s)) = credit_history s @ X
            \<and> of_type upgrade_bonus X = []"
  proof -
    consider (failed) err where
        "upsert_member (md_id md) (md_email md) (md_name md) (currentIsPaid e md)
           (case md_tags md of None \<Rightarrow> [] | Some ts \<Rightarrow> ts) now s = Inl err"
      | (stored) em nm where "varchar 255 (md_email md) = Inr em"
          "varchar 255 (md_name md) = Inr nm"
          "\<not> list_ex (\<lambda>r. email r = em \<and> circle_member_id r \<noteq> md_id md) (members s)"
      using upsert_member_cases [of "md_id md" "md_email md" "md_name md" "currentIsPaid e md"
          "case md_tags md of None \<Rightarrow> [] | Some ts \<Rightarrow> ts" now s]
      by blast
    then show ?thesis
    proof cases
      case failed
      then have "credit_history (fst (auth_steps_1_2 e now md s)) = credit_history s @ []"
        by (simp add: auth_steps_1_2_failed)
      then show ?thesis by (metis of_type_Nil)
    next
      case stored
      show ?thesis
      proof (cases "member_credits s (m_id m) = None \<or> now - first_seen_at m < 30000")
        case True
        from auth_steps_1_2_grant_history [OF stored existing True, of e]
        obtain T r where "credit_history (fst (auth_steps_1_2 e now md s)) = credit_history s @ T @ [r]"
          and "of_type upgrade_bonus T = []" and "change_type r = initial_grant"
          by auto
        then have "credit_history (fst (auth_steps_1_2 e now md s)) = credit_history s @ (T @ [r])
                   \<and> of_type upgrade_bonus (T @ [r]) = []"
          by (simp add: of_type_append of_type_Cons of_type_Nil)
        then show ?thesis by blast
      next
        case False
        then obtain cr where account: "member_credits s (m_id m) = Some cr"
          and not_new: "\<not> now - first_seen_at m < 30000"
          by auto
        show ?thesis
          using unchanged
          unfolding auth_steps_1_2_returning(3) [OF stored existing account not_new]
          by (auto simp: of_type_append of_type_Cons of_type_Nil of_type_log_credit_change_UPDATE
                intro!: exI)
      qed
    qed
  qed
  then obtain X where "credit_history (fst (auth_steps_1_2 e now md s)) = credit_history s @ X"
    and "of_type upgrade_bonus X = []"
    by blast
  then have "credit_history (fst (auth_db_integration e now conn fail md s)) = credit_history s @ (X @ P)"
    and "of_type upgrade_bonus (X @ P) = []"
    using P rows by (simp_all add: of_type_append settlement_rows_def)
  then show ?thesis
    by (simp add: appended_history_append)
qed

section \<open>The upgrade bonus\<close>

text \<open>\<open>parseInt(...) || d\<close> at some values, and the amounts of the two example configurations.\<close>

lemma or_default_values:
  "or_default None 100 = 100" "or_default (Some 0) 100 = 100" "or_default (Some 20) 100 = 20"
  "or_default (Some (- 5)) 10 = - 5"
  by (simp_all add: or_default_def)

lemma configured_amounts:
  "upgradeBonus default_env = 90" "monthlyCredits default_env True = 100"
  "monthlyCredits default_env False = 10"
  "upgradeBonus trial_env = - 30" "monthlyCredits trial_env True = 40"
  "monthlyCredits trial_env False = 25"
  "monthlyCredits eastern_env True = 250" "monthlyCredits eastern_env False = 25"
  by (simp_all add: upgradeBonus_def monthlyCredits_def or_default_def default_env_simps
        trial_env_simps eastern_env_simps)

text \<open>
  The regular case. A member who has a row and a credit account, whose row was first seen at
  least 30 seconds ago, whose row read before the upsert has \<open>is_paid = false\<close> and who
  is classified as paid now: the authentication appends exactly one \<open>upgrade_bonus\<close> row,
  of amount \<open>INITIAL_CREDITS_PAID - INITIAL_CREDITS_FREE\<close> (with the defaults 100 and 10)
  and with \<open>balance_after\<close> the old balance plus that amount; the bonus step sets the
  stored balance to the old balance plus that amount, which is the balance after steps 1
  and 2 when no refresh is due, and the balance the refresh adds to when one is due and
  that balance is not 0. A later authentication of the same member, again classified as
  paid, appends no \<open>upgrade_bonus\<close> row, whatever its time and configuration. The
  transition is read from the row as it was before the upsert: \<open>m\<close> is the row found in
  \<open>members s\<close>.
\<close>

lemma upgrade_bonus_once:
  fixes e now conn fail md s m cr
  defines "s' \<equiv> fst (auth_db_integration e now conn fail md s)"
  defines "new_balance \<equiv> credits_balance cr + upgradeBonus e"
  assumes email_fits: "length (md_email md) \<le> 255"
    and name_fits: "length (md_name md) \<le> 255"
    and no_collision:
      "\<not> list_ex (\<lambda>r. email r = md_email md \<and> circle_member_id r \<noteq> md_id md) (members s)"
    and existing: "find (\<lambda>r. circle_member_id r = md_id md) (members s) = Some m"
    and account: "member_credits s (m_id m) = Some cr"
    and not_new: "\<not> now - first_seen_at m < 30000"
    and previous_unpaid: "\<not> is_paid m"
    and current_paid: "currentIsPaid e md"
  shows "credit_history s' = credit_history s @ appended_history s s'
    \<and> of_type upgrade_bonus (appended_history s s') =
        [\<lparr>ch_member_id = m_id m, change_amount = upgradeBonus e, change_type = upgrade_bonus,
          balance_after = new_balance, reference_id = None,
          ch_notes = ''Credit bonus for upgrading to paid membership''\<rparr>]
    \<and> upgradeBonus e = or_default (INITIAL_CREDITS_PAID e) 100 - or_default (INITIAL_CREDITS_FREE e) 10
    \<and> (\<forall>tagsChanged s1. member_credits s1 (m_id m) = Some cr \<longrightarrow>
          member_credits (fst (upgrade_step e (is_paid m) (currentIsPaid e md) tagsChanged (m_id m) cr s1))
            (m_id m) = Some (cr\<lparr>credits_balance := new_balance\<rparr>))
    \<and> (\<not> last_refreshed_at cr < oneMonthAgo e now \<longrightarrow>
          member_credits (fst (auth_steps_1_2 e now md s)) (m_id m)
            = Some (cr\<lparr>credits_balance := new_balance\<rparr>))
    \<and> (last_refreshed_at cr < oneMonthAgo e now \<and> new_balance \<noteq> 0 \<longrightarrow>
          member_credits (fst (auth_steps_1_2 e now md s)) (m_id m)
            = Some (cr\<lparr>credits_balance := new_balance + monthlyCredits e True,
                        last_refreshed_at := now\<rparr>))
    \<and> (\<forall>e2 now2 conn2 fail2 md2. md_id md2 = md_id md \<and> currentIsPaid e2 md2 \<longrightarrow>
          of_type upgrade_bonus
            (appended_history s' (fst (auth_db_integration e2 now2 conn2 fail2 md2 s'))) = [])"
proof -
  obtain P where P: "credit_history s' = credit_history (fst (auth_steps_1_2 e now md s)) @ P"
    and rows: "settlement_rows P"
    unfolding s'_def using auth_db_integration_history [of e now conn fail md s] by blast
  note stored = varchar_fits [OF email_fits] varchar_fits [OF name_fits]
  note ret = auth_steps_1_2_returning [OF stored no_collision existing account not_new, of e]
  let ?row = "\<lparr>ch_member_id = m_id m, change_amount = upgradeBonus e, change_type = upgrade_bonus,
                balance_after = new_balance, reference_id = None,
                ch_notes = ''Credit bonus for upgrading to paid membership''\<rparr>"
  have "\<exists>X. credit_history (fst (auth_steps_1_2 e now md s)) = credit_history s @ X
           \<and> of_type upgrade_bonus X = [?row]"
    using previous_unpaid current_paid unfolding ret(3) new_balance_def
    by (auto simp: of_type_append of_type_Cons of_type_Nil of_type_log_credit_change_UPDATE
          intro!: exI)
  then obtain X where X: "credit_history (fst (auth_steps_1_2 e now md s)) = credit_history s @ X"
    and bonus: "of_type upgrade_bonus X = [?row]"
    by blast
  have hist: "credit_history s' = credit_history s @ (X @ P)"
    using P X by simp
  then have app: "appended_history s s' = X @ P"
    by (rule appended_history_append)
  have c1: "credit_history s' = credit_history s @ appended_history s s'"
    using hist app by simp
  have c2: "of_type upgrade_bonus (appended_history s s') = [?row]"
    using bonus rows by (simp add: app of_type_append settlement_rows_def)
  have c3: "upgradeBonus e = or_default (INITIAL_CREDITS_PAID e) 100 - or_default (INITIAL_CREDITS_FREE e) 10"
    by (simp add: upgradeBonus_def)
  have c4: "member_credits (fst (upgrade_step e (is_paid m) (currentIsPaid e md) tc (m_id m) cr s1))
              (m_id m) = Some (cr\<lparr>credits_balance := new_balance\<rparr>)"
    if "member_credits s1 (m_id m) = Some cr" for tc s1
    using previous_unpaid current_paid
    by (simp add: upgrade_step_credits(1) [OF that] new_balance_def)
  have c5: "member_credits (fst (auth_steps_1_2 e now md s)) (m_id m)
              = Some (cr\<lparr>credits_balance := new_balance\<rparr>)"
    if "\<not> last_refreshed_at cr < oneMonthAgo e now"
    using that previous_unpaid current_paid by (simp add: ret(2) new_balance_def)
  have c6: "member_credits (fst (auth_steps_1_2 e now md s)) (m_id m)
              = Some (cr\<lparr>credits_balance := new_balance + monthlyCredits e True,
                          last_refreshed_at := now\<rparr>)"
    if "last_refreshed_at cr < oneMonthAgo e now" "new_balance \<noteq> 0"
    using that previous_unpaid current_paid by (simp add: ret(2) new_balance_def)
  have members': "members s' = map (\<lambda>r. if circle_member_id r = md_id md
               then r\<lparr>email := md_email md, name := md_name md, is_paid := currentIsPaid e md,
                      tags := (case md_tags md of None \<Rightarrow> [] | Some ts \<Rightarrow> ts),
                      last_seen_at := now\<rparr>
               else r) (members s)"
    unfolding s'_def auth_db_integration_members
    by (rule auth_steps_1_2_members_existing [OF stored no_collision existing])
  have existing': "find (\<lambda>r. circle_member_id r = md_id md) (members s')
      = Some (m\<lparr>email := md_email md, name := md_name md, is_paid := currentIsPaid e md,
                tags := (case md_tags md of None \<Rightarrow> [] | Some ts \<Rightarrow> ts), last_seen_at := now\<rparr>)"
    unfolding members' by (rule find_after_upsert [OF existing])
  have c7: "of_type upgrade_bonus
              (appended_history s' (fst (auth_db_integration e2 now2 conn2 fail2 md2 s'))) = []"
    if "md_id md2 = md_id md" for e2 now2 conn2 fail2 md2
  proof (rule no_upgrade_bonus_without_transition)
    show "find (\<lambda>r. circle_member_id r = md_id md2) (members s')
      = Some (m\<lparr>email := md_email md, name := md_name md, is_paid := currentIsPaid e md,
                tags := (case md_tags md of None \<Rightarrow> [] | Some ts \<Rightarrow> ts), last_seen_at := now\<rparr>)"
      using existing' that by simp
    show "is_paid (m\<lparr>email := md_email md, name := md_name md, is_paid := currentIsPaid e md,
                tags := (case md_tags md of None \<Rightarrow> [] | Some ts \<Rightarrow> ts), last_seen_at := now\<rparr>)
          \<or> \<not> currentIsPaid e2 md2"
      using current_paid by simp
  qed
  show ?thesis
    using c1 c2 c3 c4 c5 c6 c7 by blast
qed


lemma oneMonthAgo_1704844860000: "oneMonthAgo default_env 1704844860000 = 1702166460000"
  by code_simp

lemma oneMonthAgo_1704844920000: "oneMonthAgo default_env 1704844920000 = 1702166520000"
  by code_simp

lemma purchaseTags_premium: "purchaseTags (Some [''premium'']) = []"
  by code_simp

lemma upgrade_authentication:
  "auth_db_integration default_env 1704844860000 conn fail alice_paid (db_alice 1704844800000) =
     (db_alice_upgraded 1704844800000 1704844860000,
      \<lparr>am_credits_balance = 100, am_is_new_user = False,
        am_processed_purchase_tags = [], am_db_error = False\<rparr>)"
  by (simp add: auth_defs example_defs purchaseTags_premium oneMonthAgo_1704844860000)

lemma second_paid_authentication:
  "fst (auth_db_integration default_env 1704844920000 conn fail alice_paid
          (db_alice_upgraded 1704844800000 1704844860000)) =
     (db_alice_upgraded 1704844800000 1704844920000)"
  by (simp add: auth_defs example_defs purchaseTags_premium oneMonthAgo_1704844920000)

text \<open>
  Claim C5, where the code departs from it. The member upgrades in an authentication in
  which a monthly refresh is due as well, and the old balance plus the bonus is exactly 0.
  The bonus step stores the balance 0 and logs the \<open>upgrade_bonus\<close> row; the refresh
  then reads \<open>creditsResult.rows[0]?.credits_balance || creditsRecord.credits_balance\<close>,
  takes the 0 for a missing value and adds the monthly amount to the balance read before
  the bonus. The event ends with the old balance plus the monthly amount: the bonus is in
  the history and not in the balance.
\<close>

theorem upgrade_bonus_overwritten_by_refresh:
  fixes e now conn fail md s m cr
  defines "s' \<equiv> fst (auth_db_integration e now conn fail md s)"
  assumes email_fits: "length (md_email md) \<le> 255"
    and name_fits: "length (md_name md) \<le> 255"
    and no_collision:
      "\<not> list_ex (\<lambda>r. email r = md_email md \<and> circle_member_id r \<noteq> md_id md) (members s)"
    and existing: "find (\<lambda>r. circle_member_id r = md_id md) (members s) = Some m"
    and account: "member_credits s (m_id m) = Some cr"
    and not_new: "\<not> now - first_seen_at m < 30000"
    and previous_unpaid: "\<not> is_paid m"
    and current_paid: "currentIsPaid e md"
    and no_purchase: "purchaseTags (md_tags md) = []"
    and due: "last_refreshed_at cr < oneMonthAgo e now"
    and bonus: "upgradeBonus e \<noteq> 0"
    and zero: "credits_balance cr + upgradeBonus e = 0"
  shows "of_type upgrade_bonus (appended_history s s') =
        [\<lparr>ch_member_id = m_id m, change_amount = upgradeBonus e, change_type = upgrade_bonus,
          balance_after = 0, reference_id = None,
          ch_notes = ''Credit bonus for upgrading to paid membership''\<rparr>]
    \<and> of_type monthly_refresh (appended_history s s') =
        [\<lparr>ch_member_id = m_id m, change_amount = monthlyCredits e True,
          change_type = monthly_refresh,
          balance_after = credits_balance cr + monthlyCredits e True, reference_id = None,
          ch_notes = ''Monthly credit refresh: paid member''\<rparr>]
    \<and> member_credits s' (m_id m)
        = Some \<lparr>credits_balance = credits_balance cr + monthlyCredits e True,
                 last_refreshed_at = now\<rparr>
    \<and> am_credits_balance (snd (auth_db_integration e now conn fail md s))
        = credits_balance cr + monthlyCredits e True
    \<and> credits_balance cr + monthlyCredits e True
        \<noteq> credits_balance cr + upgradeBonus e + monthlyCredits e True"
proof -
  note stored = varchar_fits [OF email_fits] varchar_fits [OF name_fits]
  note ret = auth_steps_1_2_returning [OF stored no_collision existing account not_new, of e]
  let ?final = "\<lparr>credits_balance = credits_balance cr + monthlyCredits e True,
                  last_refreshed_at = now\<rparr>"
  have result: "snd (auth_steps_1_2 e now md s) = Some (Some ?final, m_id m, False)"
    unfolding ret(1) using previous_unpaid current_paid due zero
    by (simp add: member_credits_row_updates)
  have credits: "member_credits (fst (auth_steps_1_2 e now md s))
                   = (member_credits s)(m_id m \<mapsto> ?final)"
    unfolding ret(2) using previous_unpaid current_paid due zero
    by (simp add: member_credits_row_updates)
  have history: "credit_history (fst (auth_steps_1_2 e now md s)) = credit_history s @
      (log_credit_change_UPDATE (m_id m) cr (cr\<lparr>credits_balance := 0\<rparr>) @
       [\<lparr>ch_member_id = m_id m, change_amount = upgradeBonus e, change_type = upgrade_bonus,
         balance_after = 0, reference_id = None,
         ch_notes = ''Credit bonus for upgrading to paid membership''\<rparr>]) @
      (log_credit_change_UPDATE (m_id m) (cr\<lparr>credits_balance := 0\<rparr>)
         (cr\<lparr>credits_balance := credits_balance cr + monthlyCredits e True,
             last_refreshed_at := now\<rparr>) @
       [\<lparr>ch_member_id = m_id m, change_amount = monthlyCredits e True,
         change_type = monthly_refresh,
         balance_after = credits_balance cr + monthlyCredits e True, reference_id = None,
         ch_notes = ''Monthly credit refresh: paid member''\<rparr>])"
    unfolding ret(3) using previous_unpaid current_paid due zero by simp
  have whole: "auth_db_integration e now conn fail md s =
      (fst (auth_steps_1_2 e now md s),
       \<lparr>am_credits_balance = credits_balance cr + monthlyCredits e True, am_is_new_user = False,
         am_processed_purchase_tags = [], am_db_error = False\<rparr>)"
    using result no_purchase
    by (cases "auth_steps_1_2 e now md s")
       (simp add: auth_db_integration_def process_purchase_tags_nothing)
  have app: "appended_history s s' =
      (log_credit_change_UPDATE (m_id m) cr (cr\<lparr>credits_balance := 0\<rparr>) @
       [\<lparr>ch_member_id = m_id m, change_amount = upgradeBonus e, change_type = upgrade_bonus,
         balance_after = 0, reference_id = None,
         ch_notes = ''Credit bonus for upgrading to paid membership''\<rparr>]) @
      (log_credit_change_UPDATE (m_id m) (cr\<lparr>credits_balance := 0\<rparr>)
         (cr\<lparr>credits_balance := credits_balance cr + monthlyCredits e True,
             last_refreshed_at := now\<rparr>) @
       [\<lparr>ch_member_id = m_id m, change_amount = monthlyCredits e True,
         change_type = monthly_refresh,
         balance_after = credits_balance cr + monthlyCredits e True, reference_id = None,
         ch_notes = ''Monthly credit refresh: paid member''\<rparr>])"
    unfolding s'_def whole fst_conv using history by (rule appended_history_append)
  have c1: "of_type upgrade_bonus (appended_history s s') =
        [\<lparr>ch_member_id = m_id m, change_amount = upgradeBonus e, change_type = upgrade_bonus,
          balance_after = 0, reference_id = None,
          ch_notes = ''Credit bonus for upgrading to paid membership''\<rparr>]"
    unfolding app
    by (simp add: of_type_append of_type_Cons of_type_Nil of_type_log_credit_change_UPDATE)
  have c2: "of_type monthly_refresh (appended_history s s') =
        [\<lparr>ch_member_id = m_id m, change_amount = monthlyCredits e True,
          change_type = monthly_refresh,
          balance_after = credits_balance cr + monthlyCredits e True, reference_id = None,
          ch_notes = ''Monthly credit refresh: paid member''\<rparr>]"
    unfolding app
    by (simp add: of_type_append of_type_Cons of_type_Nil of_type_log_credit_change_UPDATE)
  have c3: "member_credits s' (m_id m) = Some ?final"
    unfolding s'_def whole fst_conv credits by simp
  have c4: "am_credits_balance (snd (auth_db_integration e now conn fail md s))
              = credits_balance cr + monthlyCredits e True"
    unfolding whole by simp
  show ?thesis
    using c1 c2 c3 c4 bonus by simp
qed

text \<open>
  Such a member under \<open>trial_env\<close>: the first authentication on 2024-01-10 grants 50
  credits, 20 are spent, and on 2024-03-15 the member comes back with a paid tag.
\<close>

lemma trial_first_authentication:
  "auth_db_integration trial_env t conn fail alice_free empty_db =
     (db_trial_50 t, \<lparr>am_credits_balance = 50, am_is_new_user = True,
                       am_processed_purchase_tags = [], am_db_error = False\<rparr>)"
  by (simp add: auth_defs trial_env_simps alice_free_def purchaseTags_empty empty_db_def
        db_trial_50_def alice_row_def)

lemma oneMonthAgo_trial_1710460800000: "oneMonthAgo trial_env 1710460800000 = 1707955200000"
  by code_simp

lemma purchaseTags_gold: "purchaseTags (md_tags alice_gold) = []"
  by code_simp

lemma currentIsPaid_gold: "currentIsPaid trial_env alice_gold"
  by code_simp

lemma trial_spend:
  "spend trial_env (spend_request_of 20) (db_trial_50 t) = (db_trial_30 t, spend_ok 1 20 30)"
  by (simp add: spend_def spend_transaction_def spend_request_of_def trial_env_simps Let_def
        insert_app_actions_def varchar_def update_member_credits_def insert_credit_history_def
        log_credit_change_UPDATE_def db_trial_50_def db_trial_30_def alice_row_def)

lemma trial_member:
  "length (md_email alice_gold) \<le> 255" "length (md_name alice_gold) \<le> 255"
  "\<not> list_ex (\<lambda>r. email r = md_email alice_gold \<and> circle_member_id r \<noteq> md_id alice_gold)
       (members (db_trial_30 t))"
  "find (\<lambda>r. circle_member_id r = md_id alice_gold) (members (db_trial_30 t))
     = Some (alice_row t)"
  "member_credits (db_trial_30 t) (Suc 0)
     = Some \<lparr>credits_balance = 30, last_refreshed_at = t\<rparr>"
  by (simp_all add: alice_gold_def db_trial_30_def alice_row_def)

lemma alice_row_simps:
  "m_id (alice_row t) = 1" "first_seen_at (alice_row t) = t" "\<not> is_paid (alice_row t)"
  by (simp_all add: alice_row_def)

theorem upgrade_bonus_overwritten_by_refresh_witness:
  "length (md_email alice_gold) \<le> 255 \<and> length (md_name alice_gold) \<le> 255
   \<and> \<not> list_ex (\<lambda>r. email r = md_email alice_gold \<and> circle_member_id r \<noteq> md_id alice_gold)
        (members (db_trial_30 1704844800000))
   \<and> find (\<lambda>r. circle_member_id r = md_id alice_gold) (members (db_trial_30 1704844800000))
       = Some (alice_row 1704844800000)
   \<and> member_credits (db_trial_30 1704844800000) (m_id (alice_row 1704844800000))
       = Some \<lparr>credits_balance = 30, last_refreshed_at = 1704844800000\<rparr>
   \<and> \<not> 1710460800000 - first_seen_at (alice_row 1704844800000) < 30000
   \<and> \<not> is_paid (alice_row 1704844800000)
   \<and> currentIsPaid trial_env alice_gold
   \<and> purchaseTags (md_tags alice_gold) = []
   \<and> (1704844800000 :: int) < oneMonthAgo trial_env 1710460800000
   \<and> upgradeBonus trial_env = - 30
   \<and> monthlyCredits trial_env True = 40
   \<and> of_type upgrade_bonus
        (appended_history (db_trial_30 1704844800000)
           (fst (auth_db_integration trial_env 1710460800000 second_connection None alice_gold
                   (db_trial_30 1704844800000))))
       = [\<lparr>ch_member_id = 1, change_amount = - 30, change_type = upgrade_bonus,
           balance_after = 0, reference_id = None,
           ch_notes = ''Credit bonus for upgrading to paid membership''\<rparr>]
   \<and> of_type monthly_refresh
        (appended_history (db_trial_30 1704844800000)
           (fst (auth_db_integration trial_env 1710460800000 second_connection None alice_gold
                   (db_trial_30 1704844800000))))
       = [\<lparr>ch_member_id = 1, change_amount = 40, change_type = monthly_refresh,
           balance_after = 70, reference_id = None,
           ch_notes = ''Monthly credit refresh: paid member''\<rparr>]
   \<and> member_credits
        (fst (auth_db_integration trial_env 1710460800000 second_connection None alice_gold
                (db_trial_30 1704844800000))) 1
       = Some \<lparr>credits_balance = 70, last_refreshed_at = 1710460800000\<rparr>
   \<and> am_credits_balance
        (snd (auth_db_integration trial_env 1710460800000 second_connection None alice_gold
                (db_trial_30 1704844800000))) = 70"
  using upgrade_bonus_overwritten_by_refresh [where e = trial_env and now = 1710460800000
      and conn = second_connection and fail = None and md = alice_gold
      and s = "db_trial_30 1704844800000" and m = "alice_row 1704844800000"
      and cr = "\<lparr>credits_balance = 30, last_refreshed_at = 1704844800000\<rparr>"]
  by (simp add: trial_member alice_row_simps purchaseTags_gold currentIsPaid_gold
        oneMonthAgo_trial_1710460800000 configured_amounts)

text \<open>
  With the default configuration the bonus is 90, and the balance at which it is lost is
  -90: the member comes back as a paid member on 2024-03-15, the \<open>upgrade_bonus\<close> row of
  90 is logged with \<open>balance_after = 0\<close>, and the balance ends at -90 + 100 = 10.
\<close>

lemma oneMonthAgo_1710460800000: "oneMonthAgo default_env 1710460800000 = 1707955200000"
  by code_simp

lemma default_bonus_overwritten:
  "map (\<lambda>r. (change_type r, change_amount r, balance_after r))
     (credit_history (fst (auth_db_integration default_env 1710460800000 conn fail alice_paid
                             (db_alice_owing 1704844800000))))
     = [(credit_addition, 90, 0), (upgrade_bonus, 90, 0),
        (credit_addition, 10, 10), (monthly_refresh, 100, 10)]"
  "member_credits (fst (auth_db_integration default_env 1710460800000 conn fail alice_paid
                          (db_alice_owing 1704844800000))) 1
     = Some \<lparr>credits_balance = 10, last_refreshed_at = 1710460800000\<rparr>"
  by (simp_all add: auth_defs example_defs purchaseTags_premium oneMonthAgo_1710460800000
        db_alice_owing_def)


section \<open>The monthly refresh\<close>


text \<open>
  The cutoff at some times. In UTC: from 2024-03-15T00:00:00Z it is 2024-02-15T00:00:00Z;
  from 2023-03-31T12:00:00Z it is 2023-03-03T12:00:00Z, 28 days earlier, February 2023
  having 28 days; from 2024-03-31T16:00:00Z it is 2024-03-02T16:00:00Z. In US Eastern time
  2024-03-31T16:00:00Z is noon of 31 March, and the cutoff is noon of 2 March, which is
  2024-03-02T17:00:00Z: daylight saving time began in between.
\<close>

lemma oneMonthAgo_1710460800001: "oneMonthAgo default_env 1710460800001 = 1707955200001"
  by code_simp

lemma oneMonthAgo_month_end: "oneMonthAgo default_env 1680264000000 = 1677844800000"
  by code_simp

lemma oneMonthAgo_utc_1711900800000: "oneMonthAgo default_env 1711900800000 = 1709395200000"
  by code_simp


lemma refresh_authentication:
  "auth_db_integration default_env 1710460800000 conn fail alice_free (db_alice 1704844800000) =
     (db_alice_refreshed 1704844800000 1710460800000,
      \<lparr>am_credits_balance = 20, am_is_new_user = False,
        am_processed_purchase_tags = [], am_db_error = False\<rparr>)"
  by (simp add: auth_defs example_defs purchaseTags_empty oneMonthAgo_1710460800000)


lemma one_month_and_a_millisecond_authentication:
  "auth_db_integration default_env 1710460800001 conn fail alice_free (db_alice 1707955200000) =
     (db_alice_refreshed 1707955200000 1710460800001,
      \<lparr>am_credits_balance = 20, am_is_new_user = False,
        am_processed_purchase_tags = [], am_db_error = False\<rparr>)"
  by (simp add: auth_defs example_defs purchaseTags_empty oneMonthAgo_1710460800001)

text \<open>
  A member last refreshed at 2023-03-03T11:59:59.999Z and authenticating at
  2023-03-31T12:00:00.000Z, 28 days and a millisecond later, is refreshed.
\<close>

lemma month_end_authentication:
  "auth_db_integration default_env 1680264000000 conn fail alice_free (db_alice 1677844799999) =
     (db_alice_refreshed 1677844799999 1680264000000,
      \<lparr>am_credits_balance = 20, am_is_new_user = False,
        am_processed_purchase_tags = [], am_db_error = False\<rparr>)"
  by (simp add: auth_defs example_defs purchaseTags_empty oneMonthAgo_month_end)




text \<open>The same member at the same times when the local time of the process is UTC.\<close>

lemma utc_authentication:
  "auth_db_integration default_env 1711900800000 conn fail alice_free (db_alice 1709397000000) =
     (db_alice_seen 1709397000000 1711900800000,
      \<lparr>am_credits_balance = 10, am_is_new_user = False,
        am_processed_purchase_tags = [], am_db_error = False\<rparr>)"
  by (simp add: auth_defs example_defs purchaseTags_empty oneMonthAgo_utc_1711900800000)

section \<open>The initial grant\<close>

text \<open>
  The first authentication of a member who has no row yet, in a database where the next
  member id has no credit account: the insert into \<open>member_credits\<close> fires the trigger,
  which logs an \<open>initial_grant\<close> row, and the handler then logs its own.
\<close>

lemma new_member_initial_grant_rows:
  fixes e now conn fail md s
  defines "s' \<equiv> fst (auth_db_integration e now conn fail md s)"
  defines "initialCredits \<equiv> (if currentIsPaid e md then or_default (INITIAL_CREDITS_PAID e) 100
                               else or_default (INITIAL_CREDITS_FREE e) 10)"
  assumes email_fits: "length (md_email md) \<le> 255"
    and name_fits: "length (md_name md) \<le> 255"
    and no_collision:
      "\<not> list_ex (\<lambda>r. email r = md_email md \<and> circle_member_id r \<noteq> md_id md) (members s)"
    and new: "find (\<lambda>r. circle_member_id r = md_id md) (members s) = None"
    and no_account: "member_credits s (members_id_seq s + 1) = None"
  shows "of_type initial_grant (appended_history s s') =
           [\<lparr>ch_member_id = members_id_seq s + 1, change_amount = initialCredits,
             change_type = initial_grant, balance_after = initialCredits, reference_id = None,
             ch_notes = ''Initial credit grant for new member''\<rparr>,
            \<lparr>ch_member_id = members_id_seq s + 1, change_amount = initialCredits,
             change_type = initial_grant, balance_after = initialCredits, reference_id = None,
             ch_notes = ''Initial credit grant: '' @
                        (if currentIsPaid e md then ''paid'' else ''free'') @ '' member''\<rparr>]"
    and "of_type monthly_refresh (appended_history s s') = []"
    and "of_type upgrade_bonus (appended_history s s') = []"
proof -
  obtain P where P: "credit_history s' = credit_history (fst (auth_steps_1_2 e now md s)) @ P"
    and rows: "settlement_rows P"
    unfolding s'_def using auth_db_integration_history [of e now conn fail md s] by blast
  note stored = varchar_fits [OF email_fits] varchar_fits [OF name_fits]
  let ?s1 = "s\<lparr>members := members s @
                  [\<lparr>m_id = members_id_seq s + 1, circle_member_id = md_id md, email = md_email md,
                    name = md_name md, is_paid = currentIsPaid e md,
                    tags = (case md_tags md of None \<Rightarrow> [] | Some ts \<Rightarrow> ts),
                    first_seen_at = now, last_seen_at = now\<rparr>],
                members_id_seq := members_id_seq s + 1\<rparr>"
  let ?X = "[\<lparr>ch_member_id = members_id_seq s + 1, change_amount = initialCredits,
             change_type = initial_grant, balance_after = initialCredits, reference_id = None,
             ch_notes = ''Initial credit grant for new member''\<rparr>,
            \<lparr>ch_member_id = members_id_seq s + 1, change_amount = initialCredits,
             change_type = initial_grant, balance_after = initialCredits, reference_id = None,
             ch_notes = ''Initial credit grant: '' @
                        (if currentIsPaid e md then ''paid'' else ''free'') @ '' member''\<rparr>]"
  have "credit_history (fst (auth_steps_1_2 e now md s))
          = credit_history (fst (grant_initial e now (currentIsPaid e md) (members_id_seq s + 1) ?s1))"
    unfolding auth_steps_1_2_new [OF stored no_collision new] by (simp add: split_beta)
  also have "\<dots> = credit_history s @ ?X"
    unfolding grant_initial_history using no_account
    by (simp add: log_credit_change_INSERT_def initialCredits_def)
  finally have "credit_history s' = credit_history s @ (?X @ P)"
    using P by simp
  then have app: "appended_history s s' = ?X @ P"
    by (rule appended_history_append)
  show "of_type initial_grant (appended_history s s') = ?X"
    and "of_type monthly_refresh (appended_history s s') = []"
    and "of_type upgrade_bonus (appended_history s s') = []"
    using rows unfolding app
    by (simp_all add: of_type_append of_type_Cons of_type_Nil settlement_rows_def)
qed

text \<open>
  Claim C7, at the first authentication of a new free member on the empty database with the
  default configuration: the history gets two \<open>initial_grant\<close> rows of 10 credits, the
  trigger's and the handler's, and no \<open>monthly_refresh\<close> and no \<open>upgrade_bonus\<close> row.
\<close>

theorem new_member_two_initial_grants:
  "of_type initial_grant
     (appended_history empty_db
        (fst (auth_db_integration default_env 1704844800000 one_connection None alice_free
                empty_db)))
     = [trigger_grant_10, app_grant_10]
   \<and> of_type monthly_refresh
     (appended_history empty_db
        (fst (auth_db_integration default_env 1704844800000 one_connection None alice_free
                empty_db))) = []
   \<and> of_type upgrade_bonus
     (appended_history empty_db
        (fst (auth_db_integration default_env 1704844800000 one_connection None alice_free
                empty_db))) = []"
  by (simp only: first_authentication fst_conv)
     (simp add: appended_history_def of_type_def db_alice_def empty_db_simps
        trigger_grant_10_def app_grant_10_def)

section \<open>The ledger\<close>

lemma alice_spends_4:
  "spend default_env (spend_request_of 4) (db_alice t) = (db_alice_spent t, spend_ok 1 4 6)"
  by (simp add: spend_def spend_transaction_def spend_request_of_def default_env_simps Let_def
        insert_app_actions_def varchar_def update_member_credits_def insert_credit_history_def
        log_credit_change_UPDATE_def db_alice_def db_alice_spent_def alice_row_def)

text \<open>
  Claim C1, on the code: a new free member authenticates for the first time and then spends
  4 credits. The stored balance is 6. The history holds four rows for the member: the
  grant of 10 twice, once from the trigger and once from the handler, and the debit of 4
  twice, once from the trigger and once from the handler. Their amounts sum to 12.
\<close>

theorem history_sum_is_twice_the_balance:
  "fst (auth_db_integration default_env 1704844800000 one_connection None alice_free empty_db)
     = db_alice 1704844800000
   \<and> spend default_env (spend_request_of 4) (db_alice 1704844800000)
     = (db_alice_spent 1704844800000, spend_ok 1 4 6)
   \<and> stored_balance (db_alice_spent 1704844800000) 1 = Some 6
   \<and> map (\<lambda>r. (ch_member_id r, change_type r, change_amount r))
        (credit_history (db_alice_spent 1704844800000))
     = [(1, initial_grant, 10), (1, initial_grant, 10),
        (1, credit_deduction, - 4), (1, action_cost, - 4)]
   \<and> history_sum (db_alice_spent 1704844800000) 1 = 12"
  by (simp only: first_authentication alice_spends_4 fst_conv)
     (simp add: stored_balance_def history_sum_def db_alice_spent_def trigger_grant_10_def
        app_grant_10_def)

text \<open>
  The same at every successful debit: the trigger logs the change of the balance, the handler
  logs the cost, and the history of the member moves by twice the cost while the balance
  moves by the cost once.
\<close>

lemma spend_logs_the_debit_twice:
  assumes tx: "spend_transaction cid atype cost s = Inr (s', response)"
    and member: "find (\<lambda>r. circle_member_id r = cid) (members s) = Some m"
    and cost: "cost \<noteq> 0"
  shows "stored_balance s' (m_id m) = map_option (\<lambda>b. b - cost) (stored_balance s (m_id m))"
    and "history_sum s' (m_id m) = history_sum s (m_id m) - 2 * cost"
proof -
  from tx member obtain mc where mc: "member_credits s (m_id m) = Some mc"
    by (auto simp: spend_transaction_def split: option.splits)
  have credits: "member_credits s' = (member_credits s)
                   (m_id m \<mapsto> mc\<lparr>credits_balance := credits_balance mc - cost\<rparr>)"
    and history: "credit_history s' = credit_history s @
        log_credit_change_UPDATE (m_id m) mc (mc\<lparr>credits_balance := credits_balance mc - cost\<rparr>) @
        [\<lparr>ch_member_id = m_id m, change_amount = - cost, change_type = action_cost,
          balance_after = credits_balance mc - cost,
          reference_id = Some (app_actions_id_seq s + 1),
          ch_notes = ''Credits spent on '' @ atype\<rparr>]"
    using tx member mc
    by (auto simp: spend_transaction_def Let_def insert_app_actions_def update_member_credits_def
          insert_credit_history_def split: sum.splits if_splits)
  show "stored_balance s' (m_id m) = map_option (\<lambda>b. b - cost) (stored_balance s (m_id m))"
    by (simp add: stored_balance_def credits mc)
  show "history_sum s' (m_id m) = history_sum s (m_id m) - 2 * cost"
    using cost by (simp add: history_sum_def history log_credit_change_UPDATE_def)
qed

lemma credit_processing_result:
  "snd (credit_processing e now isNew prev paid tc mid s)
     = member_credits (fst (credit_processing e now isNew prev paid tc mid s)) mid
   \<and> snd (credit_processing e now isNew prev paid tc mid s) \<noteq> None"
proof (cases "member_credits s mid = None \<or> isNew")
  case True
  show ?thesis
    unfolding credit_processing_grant [OF True]
    by (simp add: grant_initial_def Let_def statement_simps)
next
  case False
  then obtain cr where account: "member_credits s mid = Some cr" and "\<not> isNew"
    by auto
  let ?up = "upgrade_step e prev paid tc mid cr s"
  obtain cr_u where up_snd: "snd ?up = Some cr_u"
    and up_credits: "member_credits (fst ?up) mid = Some cr_u"
    using upgrade_step_credits [OF account, of e prev paid tc] by simp
  have up: "?up = (fst ?up, Some cr_u)"
    by (simp add: prod_eq_iff up_snd)
  have cp: "credit_processing e now isNew prev paid tc mid s
              = refresh_step e now paid mid cr (fst ?up, Some cr_u)"
    using \<open>\<not> isNew\<close> credit_processing_returning [OF account, of e now prev paid tc] up
    by simp
  show ?thesis
  proof (cases "last_refreshed_at cr < oneMonthAgo e now")
    case True
    show ?thesis
      unfolding cp using refresh_step_due_credits [OF True up_credits, of paid]
      by simp
  next
    case False
    show ?thesis
      unfolding cp refresh_step_not_due [OF False] using up_credits by simp
  qed
qed

lemma auth_steps_1_2_result:
  assumes "auth_steps_1_2 e now md s = (s2, Some (creditsResult, dbMemberId, isNewUser))"
  shows "creditsResult = member_credits s2 dbMemberId" and "creditsResult \<noteq> None"
  using assms credit_processing_result
  by (auto simp: auth_steps_1_2_def Let_def split_beta split: sum.splits prod.splits;
      metis fst_conv snd_conv)+

section \<open>The settlement of purchase tags\<close>

lemma purchaseTags_10_25:
  "purchaseTags (Some [''$10'', ''$25''])
     = [\<lparr>tag = ''$10'', credits = 10\<rparr>, \<lparr>tag = ''$25'', credits = 25\<rparr>]"
  by code_simp

lemma varchar_tags:
  "varchar 100 ''$10'' = Inr ''$10''" "varchar 100 ''$25'' = Inr ''$25''"
  by (simp_all add: varchar_def)

lemmas pool_defs =
  pool_query_def view_def apply_statement_def failing_def settlement_statements_def
  insert_processed_purchase_tags_def varchar_tags

text \<open>
  When the pool serves every query of the settlement on the same connection. Steps 1 and 2
  have succeeded and left the database \<open>s2\<close> and the credit row \<open>r\<close>, and the member's
  tags hold exactly the purchases \<open>"$10"\<close> and \<open>"$25"\<close>. When nothing fails, the
  settlement changes \<open>s2\<close> in three places only: the balance of the member's row is raised
  by 35 in one update (which the trigger logs as one \<open>credit_addition\<close> of 35), two
  \<open>purchase\<close> rows of 10 and 25 are appended to the history, and two rows are appended to
  \<open>processed_purchase_tags\<close>. When one of the five statements or the \<open>COMMIT\<close> fails,
  whichever it is, the database is \<open>s2\<close> again and the response carries the old balance
  and no processed tag.
\<close>

lemma purchase_settlement_on_one_connection:
  assumes steps: "auth_steps_1_2 e now md s = (s2, Some (Some r, dbMemberId, isNewUser))"
    and tags: "purchaseTags (md_tags md)
                 = [\<lparr>tag = ''$10'', credits = 10\<rparr>, \<lparr>tag = ''$25'', credits = 25\<rparr>]"
  shows "auth_db_integration e now (\<lambda>k. c) None md s =
      (s2\<lparr>member_credits := (member_credits s2)
              (dbMemberId \<mapsto> r\<lparr>credits_balance := credits_balance r + 35\<rparr>),
          credit_history := credit_history s2 @
            [\<lparr>ch_member_id = dbMemberId, change_amount = 35, change_type = credit_addition,
              balance_after = credits_balance r + 35, reference_id = None,
              ch_notes = ''Automatic log from credit balance change''\<rparr>,
             \<lparr>ch_member_id = dbMemberId, change_amount = 10, change_type = purchase,
              balance_after = credits_balance r + 35, reference_id = None,
              ch_notes = ''One-time purchase: $10''\<rparr>,
             \<lparr>ch_member_id = dbMemberId, change_amount = 25, change_type = purchase,
              balance_after = credits_balance r + 35, reference_id = None,
              ch_notes = ''One-time purchase: $25''\<rparr>],
          processed_purchase_tags := processed_purchase_tags s2 @
            [\<lparr>ppt_member_id = dbMemberId, tag_value = ''$10'', credits_granted = 10\<rparr>,
             \<lparr>ppt_member_id = dbMemberId, tag_value = ''$25'', credits_granted = 25\<rparr>]\<rparr>,
       \<lparr>am_credits_balance = credits_balance r + 35, am_is_new_user = isNewUser,
         am_processed_purchase_tags = [''$10'', ''$25''], am_db_error = False\<rparr>)"
    and "k < 6 \<Longrightarrow> auth_db_integration e now (\<lambda>k. c) (Some k) md s =
          (s2, \<lparr>am_credits_balance = credits_balance r, am_is_new_user = isNewUser,
                 am_processed_purchase_tags = [], am_db_error = False\<rparr>)"
proof -
  have account: "member_credits s2 dbMemberId = Some r"
    using auth_steps_1_2_result(1) [OF steps] by simp
  show "auth_db_integration e now (\<lambda>k. c) None md s =
      (s2\<lparr>member_credits := (member_credits s2)
              (dbMemberId \<mapsto> r\<lparr>credits_balance := credits_balance r + 35\<rparr>),
          credit_history := credit_history s2 @
            [\<lparr>ch_member_id = dbMemberId, change_amount = 35, change_type = credit_addition,
              balance_after = credits_balance r + 35, reference_id = None,
              ch_notes = ''Automatic log from credit balance change''\<rparr>,
             \<lparr>ch_member_id = dbMemberId, change_amount = 10, change_type = purchase,
              balance_after = credits_balance r + 35, reference_id = None,
              ch_notes = ''One-time purchase: $10''\<rparr>,
             \<lparr>ch_member_id = dbMemberId, change_amount = 25, change_type = purchase,
              balance_after = credits_balance r + 35, reference_id = None,
              ch_notes = ''One-time purchase: $25''\<rparr>],
          processed_purchase_tags := processed_purchase_tags s2 @
            [\<lparr>ppt_member_id = dbMemberId, tag_value = ''$10'', credits_granted = 10\<rparr>,
             \<lparr>ppt_member_id = dbMemberId, tag_value = ''$25'', credits_granted = 25\<rparr>]\<rparr>,
       \<lparr>am_credits_balance = credits_balance r + 35, am_is_new_user = isNewUser,
         am_processed_purchase_tags = [''$10'', ''$25''], am_db_error = False\<rparr>)"
    unfolding auth_db_integration_def steps
    by (simp add: process_purchase_tags_def tags pool_defs Let_def update_member_credits_def
          insert_credit_history_def log_credit_change_UPDATE_def account)
  assume "k < 6"
  then consider "k = 0" | "k = 1" | "k = 2" | "k = 3" | "k = 4" | "k = 5"
    by linarith
  then show "auth_db_integration e now (\<lambda>k. c) (Some k) md s =
          (s2, \<lparr>am_credits_balance = credits_balance r, am_is_new_user = isNewUser,
                 am_processed_purchase_tags = [], am_db_error = False\<rparr>)"
    unfolding auth_db_integration_def steps
    by cases
       (simp_all add: process_purchase_tags_def tags pool_defs Let_def update_member_credits_def
          insert_credit_history_def account)
qed

lemma tagged_steps_1_2:
  "auth_steps_1_2 default_env 1704844860000 alice_purchases (db_alice 1704844800000) =
     (db_alice_tagged 1704844800000 1704844860000,
      Some (Some \<lparr>credits_balance = 10, last_refreshed_at = 1704844800000\<rparr>, 1, False))"
  by (simp add: auth_defs example_defs alice_purchases_def db_alice_tagged_def
        oneMonthAgo_1704844860000)

lemma alice_purchases_tags:
  "purchaseTags (md_tags alice_purchases)
     = [\<lparr>tag = ''$10'', credits = 10\<rparr>, \<lparr>tag = ''$25'', credits = 25\<rparr>]"
  by (simp add: alice_purchases_def purchaseTags_10_25)

text \<open>
  The member of \<open>db_alice\<close> authenticates with the tags \<open>"$10"\<close> and \<open>"$25"\<close>, every
  query on one connection, and the insert of the processed tag \<open>"$25"\<close> fails: nothing of
  the settlement is visible.
\<close>

lemma settlement_rolled_back_on_one_connection:
  "auth_db_integration default_env 1704844860000 one_connection (Some 3) alice_purchases
     (db_alice 1704844800000)
   = (db_alice_tagged 1704844800000 1704844860000,
      \<lparr>am_credits_balance = 10, am_is_new_user = False,
        am_processed_purchase_tags = [], am_db_error = False\<rparr>)"
proof -
  have "one_connection = (\<lambda>k. 0)"
    by (simp add: one_connection_def fun_eq_iff)
  then show ?thesis
    using purchase_settlement_on_one_connection(2) [OF tagged_steps_1_2 alice_purchases_tags,
        of 3 0]
    by simp
qed

text \<open>
  Claim C3, on the code. The same member, tags and failure, when the pool serves \<open>BEGIN\<close>
  on one connection and the queries after it on another. The transaction is open on the
  first connection and holds nothing; the \<open>UPDATE\<close> of the balance, the insert of the
  processed tag \<open>"$10"\<close> and its \<open>purchase\<close> row run outside any transaction and take
  effect at once; the insert for \<open>"$25"\<close> fails, and the \<open>ROLLBACK\<close> of the \<open>catch\<close>
  block finds nothing to undo. The database keeps the balance 45, one of the two processed
  tags and one of the two \<open>purchase\<close> rows, and the response reports the balance 10 and
  no processed tag.
\<close>

theorem purchase_settlement_partly_visible:
  "auth_db_integration default_env 1704844860000 second_connection (Some 3) alice_purchases
     (db_alice 1704844800000)
   = (db_alice_partly_settled 1704844800000 1704844860000,
      \<lparr>am_credits_balance = 10, am_is_new_user = False,
        am_processed_purchase_tags = [], am_db_error = False\<rparr>)
   \<and> member_credits (db_alice 1704844800000) 1
       = Some \<lparr>credits_balance = 10, last_refreshed_at = 1704844800000\<rparr>
   \<and> member_credits (db_alice_partly_settled 1704844800000 1704844860000) 1
       = Some \<lparr>credits_balance = 45, last_refreshed_at = 1704844800000\<rparr>
   \<and> processed_purchase_tags (db_alice_partly_settled 1704844800000 1704844860000)
       = [\<lparr>ppt_member_id = 1, tag_value = ''$10'', credits_granted = 10\<rparr>]
   \<and> map change_amount
        (of_type purchase (credit_history (db_alice_partly_settled 1704844800000 1704844860000)))
       = [10]"
proof -
  have "auth_db_integration default_env 1704844860000 second_connection (Some 3) alice_purchases
     (db_alice 1704844800000)
   = (db_alice_partly_settled 1704844800000 1704844860000,
      \<lparr>am_credits_balance = 10, am_is_new_user = False,
        am_processed_purchase_tags = [], am_db_error = False\<rparr>)"
    unfolding auth_db_integration_def tagged_steps_1_2
    by (simp add: process_purchase_tags_def alice_purchases_tags pool_defs Let_def
          second_connection_def update_member_credits_def insert_credit_history_def
          log_credit_change_UPDATE_def db_alice_tagged_def db_alice_partly_settled_def
          trigger_grant_10_def app_grant_10_def)
  then show ?thesis
    by (simp add: db_alice_def db_alice_partly_settled_def of_type_def trigger_grant_10_def
          app_grant_10_def)
qed

text \<open>
  Without a failure from outside: the tags are \<open>"$10"\<close> and a tag of 102 characters that
  reads as 25 credits. \<open>tag_value\<close> holds 100 characters, so the insert of the second
  processed tag fails. On one connection nothing of the settlement is visible; with
  \<open>BEGIN\<close> on another connection the balance 45 and the rows of \<open>"$10"\<close> are.
\<close>

lemma long_tag_purchase:
  "purchaseTags (md_tags alice_long_tag)
     = [\<lparr>tag = ''$10'', credits = 10\<rparr>, \<lparr>tag = long_tag, credits = 25\<rparr>]"
  by code_simp

lemma varchar_long_tag: "varchar 100 long_tag = Inl (string_data_right_truncation 100)"
  by code_simp

lemma long_tag_steps_1_2:
  "auth_steps_1_2 default_env 1704844860000 alice_long_tag (db_alice 1704844800000) =
     ((db_alice 1704844800000)
        \<lparr>members := [\<lparr>m_id = 1, circle_member_id = 501, email = ''alice@example.com'',
                       name = ''Alice'', is_paid = False, tags = [''$10'', long_tag],
                       first_seen_at = 1704844800000, last_seen_at = 1704844860000\<rparr>]\<rparr>,
      Some (Some \<lparr>credits_balance = 10, last_refreshed_at = 1704844800000\<rparr>, 1, False))"
  by (simp add: auth_defs example_defs alice_long_tag_def oneMonthAgo_1704844860000)

lemma long_tag_settlement:
  "member_credits (fst (auth_db_integration default_env 1704844860000 one_connection None
                          alice_long_tag (db_alice 1704844800000))) 1
     = Some \<lparr>credits_balance = 10, last_refreshed_at = 1704844800000\<rparr>"
  "processed_purchase_tags (fst (auth_db_integration default_env 1704844860000 one_connection
                                   None alice_long_tag (db_alice 1704844800000))) = []"
  "member_credits (fst (auth_db_integration default_env 1704844860000 second_connection None
                          alice_long_tag (db_alice 1704844800000))) 1
     = Some \<lparr>credits_balance = 45, last_refreshed_at = 1704844800000\<rparr>"
  "processed_purchase_tags (fst (auth_db_integration default_env 1704844860000 second_connection
                                   None alice_long_tag (db_alice 1704844800000)))
     = [\<lparr>ppt_member_id = 1, tag_value = ''$10'', credits_granted = 10\<rparr>]"
  unfolding auth_db_integration_def long_tag_steps_1_2
  by (simp_all add: process_purchase_tags_def long_tag_purchase pool_query_def view_def
        apply_statement_def failing_def settlement_statements_def
        insert_processed_purchase_tags_def varchar_tags varchar_long_tag Let_def
        one_connection_def second_connection_def update_member_credits_def
        insert_credit_history_def log_credit_change_UPDATE_def db_alice_def)

lemma statusCode_insufficient: "statusCode ''Insufficient credits'' = 402"
  by (simp add: statusCode_def)

section \<open>Spending credits\<close>

text \<open>
  Claim C4. A well-formed request to spend 5 credits for a member whose balance is 3 is
  answered with the status 402 and the message \<open>Insufficient credits\<close>; the database is
  the one before the request: the balance is still 3, and no \<open>app_actions\<close> row and no
  \<open>credit_history\<close> row has been written.
\<close>

theorem spend_insufficient:
  assumes "DATABASE_URL e"
    and "rq_circle_member_id rq = Some cid" and "cid \<noteq> 0"
    and "rq_action_type rq = Some atype" and "atype \<noteq> []"
    and "rq_credits_cost rq = Some 5"
    and "find (\<lambda>r. circle_member_id r = cid) (members s) = Some m"
    and "member_credits s (m_id m) = Some mc"
    and "credits_balance mc = 3"
  shows "spend e rq s = (s, spend_failed 402 ''Insufficient credits'')
    \<and> member_credits (fst (spend e rq s)) (m_id m) = Some mc
    \<and> app_actions (fst (spend e rq s)) = app_actions s
    \<and> credit_history (fst (spend e rq s)) = credit_history s"
proof -
  have tx: "spend_transaction cid atype 5 s = Inl ''Insufficient credits''"
    using assms by (simp add: spend_transaction_def)
  have r: "spend e rq s = (s, spend_failed 402 ''Insufficient credits'')"
    using assms tx by (simp add: spend_def statusCode_insufficient)
  show ?thesis
    unfolding r using assms by simp
qed

theorem spend_insufficient_witness:
  "DATABASE_URL default_env
   \<and> find (\<lambda>r. circle_member_id r = 501) (members db_balance_3) = Some (alice_row 1704844800000)
   \<and> member_credits db_balance_3 (m_id (alice_row 1704844800000))
       = Some \<lparr>credits_balance = 3, last_refreshed_at = 1704844800000\<rparr>
   \<and> spend default_env (spend_request_of 5) db_balance_3
       = (db_balance_3, spend_failed 402 ''Insufficient credits'')
   \<and> app_actions (fst (spend default_env (spend_request_of 5) db_balance_3)) = []
   \<and> credit_history (fst (spend default_env (spend_request_of 5) db_balance_3)) = []"
  using spend_insufficient [where e = default_env and rq = "spend_request_of 5" and cid = 501
      and atype = "''generate_image''" and s = db_balance_3 and m = "alice_row 1704844800000"
      and mc = "\<lparr>credits_balance = 3, last_refreshed_at = 1704844800000\<rparr>"]
  by (simp add: default_env_simps spend_request_of_def db_balance_3_def alice_row_def)

text \<open>
  Claim C10. A well-formed request whose cost equals the member's balance succeeds: the
  remaining balance is 0, one \<open>app_actions\<close> row is appended, and exactly one
  \<open>action_cost\<close> row is appended to the history, for minus the cost, with
  \<open>balance_after = 0\<close> and the id of the action. Well-formed includes that the action
  type fits its column of 50 characters.
\<close>

theorem spend_exact_balance:
  fixes e rq s m mc cid atype
  defines "s' \<equiv> fst (spend e rq s)"
  defines "actionId \<equiv> app_actions_id_seq s + 1"
  assumes configured: "DATABASE_URL e"
    and request: "rq_circle_member_id rq = Some cid" "cid \<noteq> 0"
      "rq_action_type rq = Some atype" "atype \<noteq> []" "length atype \<le> 50"
    and member: "find (\<lambda>r. circle_member_id r = cid) (members s) = Some m"
    and account: "member_credits s (m_id m) = Some mc"
    and cost: "(case rq_credits_cost rq of None \<Rightarrow> 1 | Some c \<Rightarrow> c) = credits_balance mc"
  shows "snd (spend e rq s) = spend_ok actionId (credits_balance mc) 0
    \<and> member_credits s' = (member_credits s)(m_id m \<mapsto> mc\<lparr>credits_balance := 0\<rparr>)
    \<and> app_actions s' = app_actions s @
         [\<lparr>aa_id = actionId, aa_member_id = m_id m, action_type = atype,
           credits_cost = credits_balance mc, success = True\<rparr>]
    \<and> credit_history s' = credit_history s @ appended_history s s'
    \<and> of_type action_cost (appended_history s s') =
         [\<lparr>ch_member_id = m_id m, change_amount = - credits_balance mc,
           change_type = action_cost, balance_after = 0, reference_id = Some actionId,
           ch_notes = ''Credits spent on '' @ atype\<rparr>]"
proof -
  let ?row = "\<lparr>ch_member_id = m_id m, change_amount = - credits_balance mc,
           change_type = action_cost, balance_after = 0, reference_id = Some actionId,
           ch_notes = ''Credits spent on '' @ atype\<rparr>"
  let ?s3 = "s\<lparr>member_credits := (member_credits s)(m_id m \<mapsto> mc\<lparr>credits_balance := 0\<rparr>),
               credit_history := credit_history s @
                 log_credit_change_UPDATE (m_id m) mc (mc\<lparr>credits_balance := 0\<rparr>) @ [?row],
               app_actions := app_actions s @
                 [\<lparr>aa_id = actionId, aa_member_id = m_id m, action_type = atype,
                   credits_cost = credits_balance mc, success = True\<rparr>],
               app_actions_id_seq := actionId\<rparr>"
  have tx: "spend_transaction cid atype (credits_balance mc) s
              = Inr (?s3, spend_ok actionId (credits_balance mc) 0)"
    using member account request(5)
    by (simp add: spend_transaction_def Let_def update_member_credits_def insert_app_actions_def
          varchar_fits insert_credit_history_def actionId_def)
  have r: "spend e rq s = (?s3, spend_ok actionId (credits_balance mc) 0)"
    using configured request cost tx by (simp add: spend_def Let_def)
  have app: "appended_history s s'
               = log_credit_change_UPDATE (m_id m) mc (mc\<lparr>credits_balance := 0\<rparr>) @ [?row]"
    unfolding s'_def r by (simp add: appended_history_def)
  show ?thesis
    unfolding app unfolding s'_def r
    by (simp add: of_type_append of_type_Cons of_type_Nil of_type_log_credit_change_UPDATE)
qed

theorem spend_exact_balance_witness:
  "DATABASE_URL default_env
   \<and> length ''generate_image'' \<le> 50
   \<and> find (\<lambda>r. circle_member_id r = 501) (members db_balance_3) = Some (alice_row 1704844800000)
   \<and> member_credits db_balance_3 (m_id (alice_row 1704844800000))
       = Some \<lparr>credits_balance = 3, last_refreshed_at = 1704844800000\<rparr>
   \<and> snd (spend default_env (spend_request_of 3) db_balance_3) = spend_ok 1 3 0
   \<and> member_credits (fst (spend default_env (spend_request_of 3) db_balance_3)) 1
       = Some \<lparr>credits_balance = 0, last_refreshed_at = 1704844800000\<rparr>
   \<and> app_actions (fst (spend default_env (spend_request_of 3) db_balance_3))
       = [\<lparr>aa_id = 1, aa_member_id = 1, action_type = ''generate_image'', credits_cost = 3,
           success = True\<rparr>]
   \<and> of_type action_cost
        (appended_history db_balance_3 (fst (spend default_env (spend_request_of 3) db_balance_3)))
       = [\<lparr>ch_member_id = 1, change_amount = - 3, change_type = action_cost, balance_after = 0,
           reference_id = Some 1, ch_notes = ''Credits spent on generate_image''\<rparr>]"
  using spend_exact_balance [where e = default_env and rq = "spend_request_of 3" and cid = 501
      and atype = "''generate_image''" and s = db_balance_3 and m = "alice_row 1704844800000"
      and mc = "\<lparr>credits_balance = 3, last_refreshed_at = 1704844800000\<rparr>"]
  by (simp add: default_env_simps spend_request_of_def db_balance_3_def alice_row_def)

text \<open>
  An action type of 51 characters, with a cost that the balance covers: the insert into
  \<open>app_actions\<close> fails, the transaction is rolled back, and the answer is the status 500.
\<close>

lemma varchar_long_action_type:
  "varchar 50 long_action_type = Inl (string_data_right_truncation 50)"
  by code_simp

lemma error_message_50:
  "error_message (string_data_right_truncation 50)
     = ''value too long for type character varying(50)''"
  by code_simp

lemma statusCode_too_long:
  "statusCode ''value too long for type character varying(50)'' = 500"
  by code_simp

lemma spend_action_type_too_long:
  "spend default_env
     \<lparr>rq_circle_member_id = Some 501, rq_action_type = Some long_action_type,
       rq_credits_cost = Some 3\<rparr> db_balance_3
   = (db_balance_3, spend_failed 500 ''value too long for type character varying(50)'')"
proof -
  have "long_action_type \<noteq> []"
    by (simp add: long_action_type_def)
  then show ?thesis
    by (simp add: spend_def spend_transaction_def Let_def insert_app_actions_def
          varchar_long_action_type error_message_50 statusCode_too_long
          default_env_simps db_balance_3_def alice_row_def)
qed

text \<open>
  One handler at a time, a debit never leaves a negative balance: if no stored balance is
  negative before a spend request, none is after it.
\<close>

lemma spend_balance_nonneg:
  assumes "\<And>k mc. member_credits s k = Some mc \<Longrightarrow> 0 \<le> credits_balance mc"
    and "member_credits (fst (spend e rq s)) k = Some mc"
  shows "0 \<le> credits_balance mc"
proof (cases "\<exists>cid atype cost s' resp. spend_transaction cid atype cost s = Inr (s', resp)
                \<and> fst (spend e rq s) = s'")
  case True
  then obtain cid atype cost s' resp
    where tx: "spend_transaction cid atype cost s = Inr (s', resp)"
      and s': "fst (spend e rq s) = s'"
    by blast
  from tx obtain m mc0 where m: "find (\<lambda>r. circle_member_id r = cid) (members s) = Some m"
    and mc0: "member_credits s (m_id m) = Some mc0" and enough: "\<not> credits_balance mc0 < cost"
    by (auto simp: spend_transaction_def split: option.splits if_splits)
  have "member_credits s' = (member_credits s)(m_id m \<mapsto> mc0\<lparr>credits_balance := credits_balance mc0 - cost\<rparr>)"
    using tx m mc0 enough
    by (auto simp: spend_transaction_def Let_def update_member_credits_def insert_app_actions_def
          insert_credit_history_def split: sum.splits)
  then show ?thesis
    using assms s' enough by (auto split: if_splits)
next
  case False
  then have "fst (spend e rq s) = s"
    by (auto simp: spend_def Let_def split: option.splits sum.splits if_splits)
  then show ?thesis using assms by simp
qed

section \<open>The administrative adjustment\<close>

text \<open>
  Claim C9. For a member who has a row in \<open>members\<close> and none in \<open>member_credits\<close>, an
  adjustment with \<open>bonus_credits > 0\<close> is answered with success, not with 404: it appends
  one \<open>admin_bonus\<close> row whose amount and \<open>balance_after\<close> are both the bonus, leaves
  \<open>member_credits\<close> as it was, and reports \<open>current_balance = 0\<close>.
\<close>

theorem admin_bonus_without_account:
  fixes e now admin_email cid bonus force s m b
  defines "s' \<equiv> fst (admin_refresh_credits e now admin_email cid bonus force s)"
  assumes member: "find (\<lambda>r. circle_member_id r = cid) (members s) = Some m"
    and no_account: "member_credits s (m_id m) = None"
    and bonus: "bonus = Some b" "0 < b"
  shows "snd (admin_refresh_credits e now admin_email cid bonus force s)
           = admin_ok 0 (if force = Some True then b + monthlyCredits e (is_paid m) else b) 0
    \<and> member_credits s' = member_credits s
    \<and> credit_history s' = credit_history s @ appended_history s s'
    \<and> of_type admin_bonus (appended_history s s') =
         [\<lparr>ch_member_id = m_id m, change_amount = b, change_type = admin_bonus,
           balance_after = b, reference_id = None,
           ch_notes = ''Manual credit bonus added by admin '' @ admin_email\<rparr>]"
proof -
  let ?bonus_row = "\<lparr>ch_member_id = m_id m, change_amount = b, change_type = admin_bonus,
           balance_after = b, reference_id = None,
           ch_notes = ''Manual credit bonus added by admin '' @ admin_email\<rparr>"
  let ?refresh_rows = "(if force = Some True
       then [\<lparr>ch_member_id = m_id m, change_amount = monthlyCredits e (is_paid m),
              change_type = admin_refresh, balance_after = b + monthlyCredits e (is_paid m),
              reference_id = None,
              ch_notes = ''Manual monthly refresh by admin '' @ admin_email\<rparr>]
       else [])"
  have r: "admin_refresh_credits e now admin_email cid bonus force s =
      (s\<lparr>credit_history := credit_history s @ ?bonus_row # ?refresh_rows\<rparr>,
       admin_ok 0 (if force = Some True then b + monthlyCredits e (is_paid m) else b) 0)"
    using member no_account bonus
    by (cases force)
       (auto simp: admin_refresh_credits_def Let_def update_member_credits_def
          insert_credit_history_def)
  show ?thesis
    unfolding s'_def r
    by (simp add: appended_history_def of_type_Cons of_type_Nil)
qed

theorem admin_bonus_without_account_witness:
  "find (\<lambda>r. circle_member_id r = 501) (members db_no_account) = Some (alice_row 1704844800000)
   \<and> member_credits db_no_account (m_id (alice_row 1704844800000)) = None
   \<and> (0::int) < 50
   \<and> snd (admin_refresh_credits default_env 1704844860000 ''admin@example.com'' 501 (Some 50)
             None db_no_account) = admin_ok 0 50 0
   \<and> member_credits
        (fst (admin_refresh_credits default_env 1704844860000 ''admin@example.com'' 501 (Some 50)
                None db_no_account)) = Map.empty
   \<and> of_type admin_bonus
        (appended_history db_no_account
           (fst (admin_refresh_credits default_env 1704844860000 ''admin@example.com'' 501
                   (Some 50) None db_no_account)))
       = [\<lparr>ch_member_id = 1, change_amount = 50, change_type = admin_bonus, balance_after = 50,
           reference_id = None,
           ch_notes = ''Manual credit bonus added by admin admin@example.com''\<rparr>]"
  using admin_bonus_without_account [where e = default_env and now = 1704844860000
      and admin_email = "''admin@example.com''" and cid = 501 and bonus = "Some 50"
      and force = None and s = db_no_account and m = "alice_row 1704844800000" and b = 50]
  by (simp add: db_no_account_def alice_row_def)

end
